theory Spec2Isabelle
  imports Complex_Main
begin

section \<open>Overview\<close>

text \<open>
  A shallow embedding of the two screens of \<^verbatim>\<open>src/screens/GoalDetailScreen.tsx\<close>:
  \<^verbatim>\<open>GoalDetailScreen\<close> (reading, deleting, finalizing and reopening a goal, and the text it
  displays) and \<^verbatim>\<open>GoalDefineScreen\<close> (the text it displays, the summary's truncation, the
  request that creates a goal). The screens are written against JavaScript's built-in
  conversions (\<^verbatim>\<open>parseFloat\<close>, \<^verbatim>\<open>Number\<close>, \<^verbatim>\<open>isNaN\<close>, \<^verbatim>\<open>toFixed\<close>, truthiness), so the first
  sections define those, after the language's specification; the sections after them
  follow the source function by function.
\<close>

section \<open>JavaScript numbers\<close>

text \<open>
  A JavaScript number is an IEEE 754 binary64 value. \<open>Fin q\<close> is the finite double whose
  exact value is the rational \<open>q\<close>; the two zeros are identified (the screens never tell
  them apart: both are falsy, both print as \<^verbatim>\<open>0\<close>, and \<^verbatim>\<open>toFixed\<close> only tests \<open>x < 0\<close>).
  \<open>round_double\<close> is the rounding of a real value to the nearest double, ties to even,
  which every conversion from text and every arithmetic operation ends with.
\<close>

datatype jsnum = Fin rat | NaN | PosInfinity | NegInfinity

definition pow2 :: "int \<Rightarrow> rat" where
  "pow2 e = (if 0 \<le> e then 2 ^ nat e else 1 / 2 ^ nat (- e))"

definition pow10 :: "int \<Rightarrow> rat" where
  "pow10 e = (if 0 \<le> e then 10 ^ nat e else 1 / 10 ^ nat (- e))"

function bitlen :: "int \<Rightarrow> int" where
  "bitlen n = (if n \<le> 0 then 0 else 1 + bitlen (n div 2))"
  by pat_completeness auto
termination
  by (relation "measure nat") auto

declare bitlen.simps [simp del]

definition floor_log2 :: "rat \<Rightarrow> int" where
  \<comment> \<open>for \<open>0 < a\<close>: the \<open>e\<close> with \<open>2 ^ e \<le> a < 2 ^ (e + 1)\<close>. From 1 on it is one less than
      the number of bits of the integer part; below 1 it is minus the least \<open>j\<close> with
      \<open>1 / a \<le> 2 ^ j\<close>, and that is the number of bits of \<open>\<lceil>1 / a\<rceil> - 1\<close>\<close>
  "floor_log2 a = (if 1 \<le> a then bitlen \<lfloor>a\<rfloor> - 1 else - bitlen (\<lceil>1 / a\<rceil> - 1))"

definition round_half_even :: "rat \<Rightarrow> int" where
  "round_half_even r =
     (let f = \<lfloor>r\<rfloor>; d = r - of_int f
      in if d < 1 / 2 then f else if 1 / 2 < d then f + 1 else if even f then f else f + 1)"

definition round_double :: "rat \<Rightarrow> jsnum" where
  "round_double q =
     (if q = 0 then Fin 0
      else let a = \<bar>q\<bar>;
               e = max (floor_log2 a) (- 1022);
               ulp = pow2 (e - 52);
               r = of_int (round_half_even (a / ulp)) * ulp
           in if pow2 1024 \<le> r then (if q < 0 then NegInfinity else PosInfinity)
              else Fin (if q < 0 then - r else r))"

definition is_nan :: "jsnum \<Rightarrow> bool" where
  "is_nan n = (case n of NaN \<Rightarrow> True | _ \<Rightarrow> False)"

definition negate :: "jsnum \<Rightarrow> jsnum" where
  "negate n = (case n of Fin q \<Rightarrow> Fin (- q) | NaN \<Rightarrow> NaN
                 | PosInfinity \<Rightarrow> NegInfinity | NegInfinity \<Rightarrow> PosInfinity)"

definition times100 :: "jsnum \<Rightarrow> jsnum" where
  \<comment> \<open>\<^verbatim>\<open>x * 100\<close> on numbers\<close>
  "times100 n = (case n of Fin q \<Rightarrow> round_double (q * 100) | _ \<Rightarrow> n)"

section \<open>Numbers and text\<close>

text \<open>
  A string is the list of its code units, here of the 256 that \<open>char\<close> has: a string
  with a code unit beyond them is outside the model. Of the characters the numeric
  grammar looks at (digits, signs, the point, the exponent and radix letters, white
  space) only some rare white space lies beyond them.
\<close>

definition is_digit :: "char \<Rightarrow> bool" where
  "is_digit c = (48 \<le> (of_char c :: int) \<and> (of_char c :: int) \<le> 57)"

definition digit_val :: "char \<Rightarrow> int" where
  "digit_val c = of_char c - 48"

definition digits_val :: "string \<Rightarrow> int" where
  "digits_val ds = foldl (\<lambda>a c. 10 * a + digit_val c) 0 ds"

definition is_ws :: "char \<Rightarrow> bool" where
  \<comment> \<open>TAB, LF, VT, FF, CR, SP, NBSP\<close>
  "is_ws c = ((of_char c :: int) \<in> {9, 10, 11, 12, 13, 32, 160})"

definition parse_exponent :: "string \<Rightarrow> int \<times> string" where
  \<comment> \<open>an optional ExponentPart at the head of the text: its value (0 when absent) and the rest\<close>
  "parse_exponent s =
     (case s of
        [] \<Rightarrow> (0, s)
      | c # t \<Rightarrow>
          if c = CHR ''e'' \<or> c = CHR ''E''
          then (let neg = (case t of [] \<Rightarrow> False | d # _ \<Rightarrow> d = CHR ''-'');
                    u = (case t of [] \<Rightarrow> t
                         | d # v \<Rightarrow> if d = CHR ''+'' \<or> d = CHR ''-'' then v else t);
                    ds = takeWhile is_digit u
                in if ds = [] then (0, s)
                   else ((if neg then - digits_val ds else digits_val ds),
                         dropWhile is_digit u))
          else (0, s))"

definition parse_unsigned :: "string \<Rightarrow> (jsnum \<times> string) option" where
  \<comment> \<open>the longest prefix that is a StrUnsignedDecimalLiteral: its exact value (not yet
      rounded) and the rest of the text\<close>
  "parse_unsigned s =
     (if take 8 s = ''Infinity'' then Some (PosInfinity, drop 8 s)
      else let ip = takeWhile is_digit s; r1 = dropWhile is_digit s
           in case r1 of
                [] \<Rightarrow> if ip = [] then None else Some (Fin (of_int (digits_val ip)), [])
              | c # r2 \<Rightarrow>
                  if c = CHR ''.''
                  then (let fp = takeWhile is_digit r2; r3 = dropWhile is_digit r2
                        in if ip = [] \<and> fp = [] then None
                           else Some (Fin (of_int (digits_val (ip @ fp))
                                             * pow10 (fst (parse_exponent r3) - int (length fp))),
                                      snd (parse_exponent r3)))
                  else if ip = [] then None
                  else Some (Fin (of_int (digits_val ip) * pow10 (fst (parse_exponent r1))),
                             snd (parse_exponent r1)))"

definition finish_number :: "bool \<Rightarrow> jsnum \<Rightarrow> jsnum" where
  \<comment> \<open>sign and rounding of a parsed literal\<close>
  "finish_number neg n =
     (case n of Fin q \<Rightarrow> round_double (if neg then - q else q)
      | _ \<Rightarrow> if neg then negate n else n)"

definition parse_signed :: "string \<Rightarrow> (jsnum \<times> string) option" where
  \<comment> \<open>the longest prefix that is a StrDecimalLiteral\<close>
  "parse_signed s =
     (case s of
        [] \<Rightarrow> None
      | c # t \<Rightarrow>
          if c = CHR ''-'' then map_option (\<lambda>(n, r). (finish_number True n, r)) (parse_unsigned t)
          else if c = CHR ''+'' then map_option (\<lambda>(n, r). (finish_number False n, r)) (parse_unsigned t)
          else map_option (\<lambda>(n, r). (finish_number False n, r)) (parse_unsigned s))"

definition parseFloat_str :: "string \<Rightarrow> jsnum" where
  \<comment> \<open>\<^verbatim>\<open>parseFloat\<close> on a string: leading white space is skipped, the longest numeric prefix
      is read, anything after it is ignored\<close>
  "parseFloat_str s =
     (case parse_signed (dropWhile is_ws s) of None \<Rightarrow> NaN | Some (n, _) \<Rightarrow> n)"

definition trim :: "string \<Rightarrow> string" where
  "trim s = rev (dropWhile is_ws (rev (dropWhile is_ws s)))"

definition radix_digit :: "char \<Rightarrow> int" where
  \<comment> \<open>the value of a digit or letter; 99 for any other character\<close>
  "radix_digit c =
     (let n = (of_char c :: int)
      in if 48 \<le> n \<and> n \<le> 57 then n - 48
         else if 97 \<le> n \<and> n \<le> 102 then n - 87
         else if 65 \<le> n \<and> n \<le> 70 then n - 55
         else 99)"

definition radix_of :: "char \<Rightarrow> int" where
  \<comment> \<open>the radix a letter after a leading \<^verbatim>\<open>0\<close> announces; 0 when it announces none\<close>
  "radix_of c =
     (if c = CHR ''x'' \<or> c = CHR ''X'' then 16
      else if c = CHR ''o'' \<or> c = CHR ''O'' then 8
      else if c = CHR ''b'' \<or> c = CHR ''B'' then 2
      else 0)"

definition nondecimal :: "string \<Rightarrow> jsnum option" where
  \<comment> \<open>a NonDecimalIntegerLiteral (\<^verbatim>\<open>0x1F\<close>, \<^verbatim>\<open>0o17\<close>, \<^verbatim>\<open>0b101\<close>) taking the whole text\<close>
  "nondecimal t =
     (case t of
        z # x # d # ds \<Rightarrow>
          if z = CHR ''0'' \<and> radix_of x \<noteq> 0 \<and> list_all (\<lambda>c. radix_digit c < radix_of x) (d # ds)
          then Some (round_double
                 (of_int (foldl (\<lambda>a c. radix_of x * a + radix_digit c) 0 (d # ds))))
          else None
      | _ \<Rightarrow> None)"

definition string_to_number :: "string \<Rightarrow> jsnum" where
  \<comment> \<open>StringToNumber, the conversion behind \<^verbatim>\<open>Number(s)\<close>, \<^verbatim>\<open>isNaN(s)\<close> and \<^verbatim>\<open>s * 100\<close>: white
      space is trimmed at both ends, the empty text is 0, and the whole rest must be a
      numeric literal\<close>
  "string_to_number s =
     (let t = trim s
      in if t = [] then Fin 0
         else case nondecimal t of
                Some n \<Rightarrow> n
              | None \<Rightarrow>
                  (case parse_signed t of
                     None \<Rightarrow> NaN
                   | Some (n, r) \<Rightarrow> if r = [] then n else NaN))"

definition digit_char :: "int \<Rightarrow> char" where
  "digit_char d = ''0123456789'' ! nat d"

function digits_of :: "int \<Rightarrow> string" where
  \<comment> \<open>the decimal digits of a natural number\<close>
  "digits_of n =
     (if n < 10 then [digit_char n]
      else digits_of (n div 10) @ [digit_char (n mod 10)])"
  by pat_completeness auto
termination
  by (relation "measure nat") auto

declare digits_of.simps [simp del]

definition dec_exp :: "rat \<Rightarrow> int" where
  \<comment> \<open>for \<open>0 < x\<close>: the \<open>n\<close> with \<open>10 ^ (n - 1) \<le> x < 10 ^ n\<close>. From 1 on it is the number of
      digits of the integer part; below 1 it is one minus the least \<open>j\<close> with
      \<open>1 / x \<le> 10 ^ j\<close>, and that is the number of digits of \<open>\<lceil>1 / x\<rceil> - 1\<close>\<close>
  "dec_exp x =
     (if 1 \<le> x then int (length (digits_of \<lfloor>x\<rfloor>))
      else 1 - int (length (digits_of (\<lceil>1 / x\<rceil> - 1))))"

text \<open>
  \<^verbatim>\<open>Number::toString\<close> prints the shortest digit string \<open>s\<close> (with \<open>k\<close> digits and decimal
  exponent \<open>n\<close>) such that \<open>s * 10 ^ (n - k)\<close> rounds back to the number; among several
  of the same length the one nearest to the number, the even one on a tie. Seventeen
  digits always suffice for a double.
\<close>

definition repr_ok :: "rat \<Rightarrow> int \<Rightarrow> int \<times> int \<Rightarrow> bool" where
  "repr_ok x k c =
     (10 ^ nat (k - 1) \<le> snd c \<and> snd c < 10 ^ nat k
      \<and> round_double (of_int (snd c) * pow10 (fst c - k)) = Fin x)"

definition candidates :: "rat \<Rightarrow> int \<Rightarrow> (int \<times> int) list" where
  \<comment> \<open>pairs \<open>(n, s)\<close> for \<open>k\<close> digits\<close>
  "candidates x k =
     (let n = dec_exp x
      in filter (repr_ok x k)
           [(n, \<lfloor>x / pow10 (n - k)\<rfloor>), (n, \<lceil>x / pow10 (n - k)\<rceil>),
            (n + 1, \<lceil>x / pow10 (n + 1 - k)\<rceil>)])"

definition closer :: "rat \<Rightarrow> int \<Rightarrow> int \<times> int \<Rightarrow> int \<times> int \<Rightarrow> int \<times> int" where
  "closer x k a b =
     (let da = \<bar>of_int (snd a) * pow10 (fst a - k) - x\<bar>;
          db = \<bar>of_int (snd b) * pow10 (fst b - k) - x\<bar>
      in if da < db then a else if db < da then b else if even (snd a) then a else b)"

definition best :: "rat \<Rightarrow> int \<Rightarrow> (int \<times> int) option" where
  \<comment> \<open>the pair \<open>(n, s)\<close> for \<open>k\<close> digits, if there is one\<close>
  "best x k = (case candidates x k of [] \<Rightarrow> None | c # cs \<Rightarrow> Some (foldl (closer x k) c cs))"

fun shortest :: "nat \<Rightarrow> rat \<Rightarrow> int \<Rightarrow> int \<times> (int \<times> int) option" where
  \<comment> \<open>the least number of digits from \<open>k\<close> on that has a pair, with the pair; \<open>fuel\<close> bounds
      the search\<close>
  "shortest fuel x k =
     (let b = best x k
      in if fuel = 0 then (k, b)
         else case b of None \<Rightarrow> shortest (fuel - 1) x (k + 1) | Some c \<Rightarrow> (k, b))"

declare shortest.simps [simp del]

definition layout :: "int \<Rightarrow> int \<Rightarrow> string \<Rightarrow> string" where
  \<comment> \<open>the digits \<open>ds\<close> (there are \<open>k\<close>) with decimal exponent \<open>n\<close>, as \<^verbatim>\<open>Number::toString\<close>
      lays them out\<close>
  "layout k n ds =
     (if k \<le> n \<and> n \<le> 21 then ds @ replicate (nat (n - k)) CHR ''0''
      else if 0 < n \<and> n \<le> 21 then take (nat n) ds @ ''.'' @ drop (nat n) ds
      else if - 6 < n \<and> n \<le> 0 then ''0.'' @ replicate (nat (- n)) CHR ''0'' @ ds
      else if k = 1 then ds @ ''e'' @ (if n - 1 < 0 then ''-'' else ''+'') @ digits_of \<bar>n - 1\<bar>
      else take 1 ds @ ''.'' @ drop 1 ds @ ''e''
           @ (if n - 1 < 0 then ''-'' else ''+'') @ digits_of \<bar>n - 1\<bar>)"

definition pos_to_string :: "rat \<Rightarrow> string" where
  \<comment> \<open>\<^verbatim>\<open>Number::toString\<close> of a positive finite number; seventeen digits are tried, and a
      value that is no double and has no such digits prints its first seventeen\<close>
  "pos_to_string x =
     (case shortest 16 x 1 of
        (k, Some (n, s)) \<Rightarrow> layout k n (digits_of s)
      | (k, None) \<Rightarrow> layout k (dec_exp x) (digits_of \<lfloor>x / pow10 (dec_exp x - k)\<rfloor>))"

definition num_to_string :: "jsnum \<Rightarrow> string" where
  "num_to_string v =
     (case v of
        NaN \<Rightarrow> ''NaN''
      | PosInfinity \<Rightarrow> ''Infinity''
      | NegInfinity \<Rightarrow> ''-Infinity''
      | Fin q \<Rightarrow>
          if q = 0 then ''0''
          else if q < 0 then ''-'' @ pos_to_string (- q)
          else pos_to_string q)"

definition toFixed :: "nat \<Rightarrow> jsnum \<Rightarrow> string" where
  \<comment> \<open>\<^verbatim>\<open>Number.prototype.toFixed(f)\<close>: a number that is not finite prints as \<^verbatim>\<open>toString\<close> does,
      one of magnitude \<open>10 ^ 21\<close> or more too; any other is rounded to \<open>f\<close> decimals (the
      nearest, the larger on a tie) and padded with zeros\<close>
  "toFixed f v =
     (case v of
        Fin x \<Rightarrow>
          (let sg = (if x < 0 then ''-'' else []); a = \<bar>x\<bar>
           in if 10 ^ 21 \<le> a then sg @ num_to_string (Fin a)
              else let m = digits_of \<lfloor>a * 10 ^ f + 1 / 2\<rfloor>
                   in if f = 0 then sg @ m
                      else let z = replicate (f + 1 - length m) CHR ''0'' @ m
                           in sg @ take (length z - f) z @ ''.'' @ drop (length z - f) z)
      | _ \<Rightarrow> num_to_string v)"

section \<open>JavaScript values\<close>

text \<open>
  The values a parsed JSON document or a navigation parameter can hold, and
  \<^verbatim>\<open>undefined\<close> for what is absent. An object is its list of own properties.
\<close>

datatype jsval =
    Undefined
  | Null
  | Bool bool
  | Num jsnum
  | Str string
  | Arr "jsval list"
  | Obj "(string \<times> jsval) list"

datatype exn = TypeError | SyntaxError | Error string

fun join_comma :: "string list \<Rightarrow> string" where
  "join_comma [] = []"
| "join_comma [x] = x"
| "join_comma (x # y # r) = x @ '','' @ join_comma (y # r)"

definition nullish :: "jsval \<Rightarrow> bool" where
  "nullish v = (case v of Undefined \<Rightarrow> True | Null \<Rightarrow> True | _ \<Rightarrow> False)"

definition then_exn :: "exn + 'a \<Rightarrow> ('a \<Rightarrow> exn + 'b) \<Rightarrow> exn + 'b" where
  \<comment> \<open>evaluation in sequence: the first exception ends it\<close>
  "then_exn m f = (case m of Inl e \<Rightarrow> Inl e | Inr x \<Rightarrow> f x)"

fun collect_exn :: "(exn + 'a) list \<Rightarrow> exn + 'a list" where
  \<comment> \<open>the values of evaluations made from left to right, or the first exception\<close>
  "collect_exn [] = Inr []"
| "collect_exn (r # rs) =
     then_exn r (\<lambda>x. then_exn (collect_exn rs) (\<lambda>xs. Inr (x # xs)))"

definition has_own :: "(string \<times> jsval) list \<Rightarrow> string \<Rightarrow> bool" where
  "has_own ps k = (k \<in> fst ` set ps)"

fun to_string :: "jsval \<Rightarrow> exn + string" where
  \<comment> \<open>ToString. An array prints its elements joined by commas, \<^verbatim>\<open>null\<close> and \<^verbatim>\<open>undefined\<close>
      elements as nothing. An object is converted by the \<^verbatim>\<open>toString\<close> method it has: the
      inherited one prints \<^verbatim>\<open>[object Object]\<close>; an own property of that name hides it,
      and since no value here is a function, there is then no method to call (the
      inherited \<^verbatim>\<open>valueOf\<close> returns the object itself) and the conversion throws a
      TypeError\<close>
  "to_string Undefined = Inr ''undefined''"
| "to_string Null = Inr ''null''"
| "to_string (Bool b) = Inr (if b then ''true'' else ''false'')"
| "to_string (Num n) = Inr (num_to_string n)"
| "to_string (Str s) = Inr s"
| "to_string (Arr xs) =
     then_exn (collect_exn (map (\<lambda>x. if nullish x then Inr [] else to_string x) xs))
       (\<lambda>ss. Inr (join_comma ss))"
| "to_string (Obj ps) =
     (if has_own ps ''toString'' then Inl TypeError else Inr ''[object Object]'')"

definition to_number :: "jsval \<Rightarrow> exn + jsnum" where
  \<comment> \<open>ToNumber; an array or an object is converted to a string first (its \<^verbatim>\<open>valueOf\<close>
      returns the value itself), which can throw\<close>
  "to_number v =
     (case v of
        Undefined \<Rightarrow> Inr NaN
      | Null \<Rightarrow> Inr (Fin 0)
      | Bool b \<Rightarrow> Inr (Fin (if b then 1 else 0))
      | Num n \<Rightarrow> Inr n
      | Str s \<Rightarrow> Inr (string_to_number s)
      | _ \<Rightarrow> then_exn (to_string v) (\<lambda>s. Inr (string_to_number s)))"

definition to_boolean :: "jsval \<Rightarrow> bool" where
  \<comment> \<open>ToBoolean: what \<^verbatim>\<open>if (v)\<close>, \<^verbatim>\<open>!v\<close>, \<^verbatim>\<open>v && w\<close> and \<^verbatim>\<open>v ? a : b\<close> test\<close>
  "to_boolean v =
     (case v of
        Undefined \<Rightarrow> False
      | Null \<Rightarrow> False
      | Bool b \<Rightarrow> b
      | Num n \<Rightarrow> (case n of Fin q \<Rightarrow> q \<noteq> 0 | NaN \<Rightarrow> False | _ \<Rightarrow> True)
      | Str s \<Rightarrow> s \<noteq> []
      | _ \<Rightarrow> True)"

definition isNaN :: "jsval \<Rightarrow> exn + bool" where
  \<comment> \<open>the global \<^verbatim>\<open>isNaN\<close>: it converts its argument to a number first\<close>
  "isNaN v = then_exn (to_number v) (\<lambda>n. Inr (is_nan n))"

definition parseFloat :: "jsval \<Rightarrow> exn + jsnum" where
  \<comment> \<open>the global \<^verbatim>\<open>parseFloat\<close>: it converts its argument to a string first\<close>
  "parseFloat v = then_exn (to_string v) (\<lambda>s. Inr (parseFloat_str s))"

definition Number :: "jsval \<Rightarrow> exn + jsnum" where
  "Number v = to_number v"

definition call_toFixed :: "nat \<Rightarrow> jsval \<Rightarrow> exn + string" where
  \<comment> \<open>\<^verbatim>\<open>v.toFixed(f)\<close>: only numbers have the method. Reading it off \<^verbatim>\<open>null\<close> or \<^verbatim>\<open>undefined\<close>
      throws a TypeError; on any other value the read gives \<^verbatim>\<open>undefined\<close> (or, for an
      object, a property that is not a function) and the call throws a TypeError\<close>
  "call_toFixed f v = (case v of Num n \<Rightarrow> Inr (toFixed f n) | _ \<Rightarrow> Inl TypeError)"

definition field :: "jsval \<Rightarrow> string \<Rightarrow> jsval" where
  \<comment> \<open>\<^verbatim>\<open>v.k\<close> for one of the goal's field names \<open>k\<close> on a value that is neither \<^verbatim>\<open>null\<close> nor
      \<^verbatim>\<open>undefined\<close>: an object's own property, \<^verbatim>\<open>undefined\<close> when it has none; strings,
      arrays, numbers and booleans have no property of these names\<close>
  "field v k =
     (case v of
        Obj ps \<Rightarrow> (case map_of ps k of None \<Rightarrow> Undefined | Some x \<Rightarrow> x)
      | _ \<Rightarrow> Undefined)"

definition index0 :: "jsval \<Rightarrow> exn + jsval" where
  \<comment> \<open>\<^verbatim>\<open>data[0]\<close>\<close>
  "index0 data =
     (case data of
        Undefined \<Rightarrow> Inl TypeError
      | Null \<Rightarrow> Inl TypeError
      | Arr xs \<Rightarrow> Inr (case xs of [] \<Rightarrow> Undefined | x # _ \<Rightarrow> x)
      | Str s \<Rightarrow> Inr (case s of [] \<Rightarrow> Undefined | c # _ \<Rightarrow> Str [c])
      | Obj ps \<Rightarrow> Inr (case map_of ps ''0'' of None \<Rightarrow> Undefined | Some x \<Rightarrow> x)
      | _ \<Rightarrow> Inr Undefined)"

fun concat_children :: "(exn + string) list \<Rightarrow> exn + string" where
  "concat_children [] = Inr []"
| "concat_children (r # rs) =
     then_exn r (\<lambda>s. then_exn (concat_children rs) (\<lambda>t. Inr (s @ t)))"

fun join_keys :: "string list \<Rightarrow> string" where
  "join_keys [] = []"
| "join_keys [x] = x"
| "join_keys (x # y # r) = x @ '', '' @ join_keys (y # r)"

definition invalid_child :: "(string \<times> jsval) list \<Rightarrow> string" where
  \<comment> \<open>the message of the error React throws for a child that is an object, as its
      development build words it, with the object's keys\<close>
  "invalid_child ps =
     ''Objects are not valid as a React child (found: object with keys {''
     @ join_keys (map fst ps)
     @ ''}). If you meant to render a collection of children, use an array instead.''"

fun render_child :: "jsval \<Rightarrow> exn + string" where
  \<comment> \<open>the text of a value placed as a child of a \<^verbatim>\<open>Text\<close> element: strings and numbers
      print, \<^verbatim>\<open>null\<close>, \<^verbatim>\<open>undefined\<close> and booleans render nothing, an array renders its
      elements one after the other, an object is refused by React with an error\<close>
  "render_child Undefined = Inr []"
| "render_child Null = Inr []"
| "render_child (Bool b) = Inr []"
| "render_child (Num n) = Inr (num_to_string n)"
| "render_child (Str s) = Inr s"
| "render_child (Arr xs) = concat_children (map render_child xs)"
| "render_child (Obj ps) = Inl (Error (invalid_child ps))"

section \<open>Effects\<close>

text \<open>
  What the screens do besides computing text: they set component state, send HTTP
  requests, raise alerts, write to the console and navigate. The state below holds the
  component state of \<^verbatim>\<open>GoalDetailScreen\<close> and a record of every effect so far. An
  operation is a function from state to a result and a new state; the result is
  either normal or an exception, so that \<^verbatim>\<open>throw\<close>, \<^verbatim>\<open>catch\<close> and \<^verbatim>\<open>finally\<close> are branches of
  the model. What the network answers is an input: a promise that has settled is a
  value of \<open>exn + 'a\<close>, rejected (\<open>Inl\<close>) or fulfilled (\<open>Inr\<close>).
\<close>

datatype http_method = GET | POST | DELETE

record request =
  req_method :: http_method
  req_url :: string
  req_content_type :: string
  req_authorization :: string
  req_body :: jsval

record response =
  ok :: bool
  body_text :: "exn + string"
  body_json :: "exn + jsval"

datatype log = LogData string string | LogError exn

record screen =
  goalData :: jsval
  loading :: bool
  requests :: "request list"
  alerts :: "(string \<times> string) list"
  console :: "log list"
  navigated :: "string list"

type_synonym 'a action = "screen \<Rightarrow> (exn + 'a) \<times> screen"

definition act_return :: "'a \<Rightarrow> 'a action" where
  "act_return x s = (Inr x, s)"

definition act_throw :: "exn \<Rightarrow> 'a action" where
  "act_throw e s = (Inl e, s)"

definition act_bind :: "'a action \<Rightarrow> ('a \<Rightarrow> 'b action) \<Rightarrow> 'b action" where
  "act_bind m f s = (case m s of (Inl e, s1) \<Rightarrow> (Inl e, s1) | (Inr x, s1) \<Rightarrow> f x s1)"

definition act_then :: "'a action \<Rightarrow> 'b action \<Rightarrow> 'b action" where
  "act_then m n = act_bind m (\<lambda>_. n)"

definition await :: "exn + 'a \<Rightarrow> 'a action" where
  \<comment> \<open>\<^verbatim>\<open>await p\<close> for a promise that settles as \<open>r\<close>\<close>
  "await r s = (r, s)"

definition evaluate :: "exn + 'a \<Rightarrow> 'a action" where
  \<comment> \<open>an expression whose evaluation gives a value or throws\<close>
  "evaluate r s = (r, s)"

definition try_catch_finally ::
  "unit action \<Rightarrow> (exn \<Rightarrow> unit action) \<Rightarrow> unit action \<Rightarrow> unit action" where
  \<comment> \<open>\<^verbatim>\<open>try { body } catch (error) { handler } finally { cleanup }\<close>: the cleanup runs on every
      path; an exception of the handler or of the cleanup leaves the statement\<close>
  "try_catch_finally body handler cleanup s =
     (case body s of
        (Inr u, s1) \<Rightarrow>
          (case cleanup s1 of (Inl e, s2) \<Rightarrow> (Inl e, s2) | (Inr _, s2) \<Rightarrow> (Inr u, s2))
      | (Inl e, s1) \<Rightarrow>
          (case handler e s1 of
             (r, s2) \<Rightarrow>
               (case cleanup s2 of (Inl e2, s3) \<Rightarrow> (Inl e2, s3) | (Inr _, s3) \<Rightarrow> (r, s3))))"

definition setLoading :: "bool \<Rightarrow> unit action" where
  "setLoading b s = (Inr (), s\<lparr>loading := b\<rparr>)"

definition setGoalData :: "jsval \<Rightarrow> unit action" where
  "setGoalData v s = (Inr (), s\<lparr>goalData := v\<rparr>)"

definition fetch :: "request \<Rightarrow> unit action" where
  \<comment> \<open>the request leaves; how its promise settles is given where it is awaited\<close>
  "fetch r s = (Inr (), s\<lparr>requests := requests s @ [r]\<rparr>)"

definition Alert_alert :: "string \<Rightarrow> string \<Rightarrow> unit action" where
  "Alert_alert title message s = (Inr (), s\<lparr>alerts := alerts s @ [(title, message)]\<rparr>)"

definition console_error :: "log \<Rightarrow> unit action" where
  "console_error l s = (Inr (), s\<lparr>console := console s @ [l]\<rparr>)"

definition navigation_navigate :: "string \<Rightarrow> unit action" where
  "navigation_navigate name s = (Inr (), s\<lparr>navigated := navigated s @ [name]\<rparr>)"

section \<open>The goal-detail screen: reading and changing a goal\<close>

record props =
  goalId :: string
  token :: string
  updatedGoalData :: jsval

definition initial :: "props \<Rightarrow> screen" where
  \<comment> \<open>\<^verbatim>\<open>useState(updatedGoalData || null)\<close>, \<^verbatim>\<open>useState(!updatedGoalData)\<close>\<close>
  "initial p =
     \<lparr>goalData = (if to_boolean (updatedGoalData p) then updatedGoalData p else Null),
      loading = (\<not> to_boolean (updatedGoalData p)),
      requests = [], alerts = [], console = [], navigated = []\<rparr>"

definition api_request :: "http_method \<Rightarrow> string \<Rightarrow> props \<Rightarrow> request" where
  \<comment> \<open>the options every call of \<^verbatim>\<open>fetch\<close> in this screen passes; \<open>path\<close> is what follows
      \<^verbatim>\<open>/api/goals/\<close> before the goal's id\<close>
  "api_request m path p =
     \<lparr>req_method = m,
      req_url = ''https://fortuna-api.onrender.com/api/goals/'' @ path @ goalId p,
      req_content_type = ''application/json'',
      req_authorization = ''Bearer '' @ token p,
      req_body = Undefined\<rparr>"

definition failed_response :: "string \<Rightarrow> response \<Rightarrow> unit action" where
  \<comment> \<open>the block every operation runs on \<^verbatim>\<open>!response.ok\<close>\<close>
  "failed_response message response =
     act_bind (await (body_text response)) (\<lambda>errorData.
     act_then (console_error (LogData ''Error response data:'' errorData))
              (act_throw (Error message)))"

definition fetchGoalData :: "props \<Rightarrow> exn + response \<Rightarrow> unit action" where
  \<comment> \<open>\<open>net\<close> is how the request's promise settles\<close>
  "fetchGoalData p net =
     try_catch_finally
       (act_then (setLoading True)
       (act_then (fetch (api_request GET [] p))
       (act_bind (await net) (\<lambda>response.
        act_then (if \<not> ok response then failed_response ''Failed to fetch goal data'' response
                  else act_return ())
       (act_bind (await (body_json response)) (\<lambda>data.
        act_bind (evaluate (index0 data)) setGoalData))))))
       (\<lambda>error. act_then (Alert_alert ''Erro'' ''Falha ao buscar os dados da meta.'')
                         (console_error (LogError error)))
       (setLoading False)"

definition deleteGoal :: "props \<Rightarrow> exn + response \<Rightarrow> unit action" where
  "deleteGoal p net =
     try_catch_finally
       (act_then (setLoading True)
       (act_then (fetch (api_request DELETE [] p))
       (act_bind (await net) (\<lambda>response.
        act_then (if \<not> ok response then failed_response ''Failed to delete goal'' response
                  else act_return ())
                 (navigation_navigate ''Metas'')))))
       (\<lambda>error. act_then (Alert_alert ''Erro'' ''Falha ao deletar a meta.'')
                         (console_error (LogError error)))
       (setLoading False)"

text \<open>
  An async function runs up to its first \<^verbatim>\<open>await\<close> when it is called and goes on when the
  awaited promise has settled. In each operation of this screen every effect other than
  those of the call itself comes after the operation's last \<^verbatim>\<open>await\<close>, so an operation is
  two events: the call (\<open>_sync\<close>), and the rest (\<open>_settled\<close>) once its request, and the body
  read from the answer, have settled. \<^verbatim>\<open>finalizeGoal\<close> and \<^verbatim>\<open>reopenGoal\<close> call
  \<^verbatim>\<open>fetchGoalData()\<close> without awaiting it: the call runs \<open>fetchGoalData_sync\<close> and returns,
  the caller goes on to its alert and its \<^verbatim>\<open>finally\<close>, and \<open>fetchGoalData_settled\<close> runs
  later as an event of its own.
\<close>

definition fetchGoalData_sync :: "props \<Rightarrow> unit action" where
  "fetchGoalData_sync p = act_then (setLoading True) (fetch (api_request GET [] p))"

definition fetchGoalData_settled :: "exn + response \<Rightarrow> unit action" where
  "fetchGoalData_settled net =
     try_catch_finally
       (act_bind (await net) (\<lambda>response.
        act_then (if \<not> ok response then failed_response ''Failed to fetch goal data'' response
                  else act_return ())
       (act_bind (await (body_json response)) (\<lambda>data.
        act_bind (evaluate (index0 data)) setGoalData))))
       (\<lambda>error. act_then (Alert_alert ''Erro'' ''Falha ao buscar os dados da meta.'')
                         (console_error (LogError error)))
       (setLoading False)"

definition finalizeGoal :: "props \<Rightarrow> exn + response \<Rightarrow> unit action" where
  "finalizeGoal p net =
     try_catch_finally
       (act_then (setLoading True)
       (act_then (fetch (api_request POST ''finalize/'' p))
       (act_bind (await net) (\<lambda>response.
        act_then (if \<not> ok response then failed_response ''Failed to finalize goal'' response
                  else act_return ())
       (act_then (fetchGoalData_sync p)
                 (Alert_alert ''Sucesso'' ''Meta finalizada com sucesso.''))))))
       (\<lambda>error. act_then (Alert_alert ''Erro'' ''Falha ao finalizar a meta.'')
                         (console_error (LogError error)))
       (setLoading False)"

definition reopenGoal :: "props \<Rightarrow> exn + response \<Rightarrow> unit action" where
  "reopenGoal p net =
     try_catch_finally
       (act_then (setLoading True)
       (act_then (fetch (api_request POST ''reopen/'' p))
       (act_bind (await net) (\<lambda>response.
        act_then (if \<not> ok response then failed_response ''Failed to reopen goal'' response
                  else act_return ())
       (act_then (fetchGoalData_sync p)
                 (Alert_alert ''Sucesso'' ''Meta reaberta com sucesso.''))))))
       (\<lambda>error. act_then (Alert_alert ''Erro'' ''Falha ao reabrir a meta.'')
                         (console_error (LogError error)))
       (setLoading False)"

definition finalizeGoal_sync :: "props \<Rightarrow> unit action" where
  "finalizeGoal_sync p =
     act_then (setLoading True) (fetch (api_request POST ''finalize/'' p))"

definition finalizeGoal_settled :: "props \<Rightarrow> exn + response \<Rightarrow> unit action" where
  "finalizeGoal_settled p net =
     try_catch_finally
       (act_bind (await net) (\<lambda>response.
        act_then (if \<not> ok response then failed_response ''Failed to finalize goal'' response
                  else act_return ())
       (act_then (fetchGoalData_sync p)
                 (Alert_alert ''Sucesso'' ''Meta finalizada com sucesso.''))))
       (\<lambda>error. act_then (Alert_alert ''Erro'' ''Falha ao finalizar a meta.'')
                         (console_error (LogError error)))
       (setLoading False)"

definition reopenGoal_sync :: "props \<Rightarrow> unit action" where
  "reopenGoal_sync p =
     act_then (setLoading True) (fetch (api_request POST ''reopen/'' p))"

definition reopenGoal_settled :: "props \<Rightarrow> exn + response \<Rightarrow> unit action" where
  "reopenGoal_settled p net =
     try_catch_finally
       (act_bind (await net) (\<lambda>response.
        act_then (if \<not> ok response then failed_response ''Failed to reopen goal'' response
                  else act_return ())
       (act_then (fetchGoalData_sync p)
                 (Alert_alert ''Sucesso'' ''Meta reaberta com sucesso.''))))
       (\<lambda>error. act_then (Alert_alert ''Erro'' ''Falha ao reabrir a meta.'')
                         (console_error (LogError error)))
       (setLoading False)"

text \<open>
  What happens to the screen, one event at a time: an operation is called, or the
  request of an operation that was called has settled with the given answer. A read
  started by \<^verbatim>\<open>finalizeGoal\<close> or \<^verbatim>\<open>reopenGoal\<close> settles whenever its answer arrives, before
  or after the events of a later operation. An exception that leaves an event goes to
  nobody (the promise of the operation is not used) and the screen stays as the event
  left it.
\<close>

datatype event =
    Finalize_called
  | Finalize_answered "exn + response"
  | Reopen_called
  | Reopen_answered "exn + response"
  | Read_answered "exn + response"

fun perform :: "props \<Rightarrow> event \<Rightarrow> unit action" where
  "perform p Finalize_called = finalizeGoal_sync p"
| "perform p (Finalize_answered net) = finalizeGoal_settled p net"
| "perform p Reopen_called = reopenGoal_sync p"
| "perform p (Reopen_answered net) = reopenGoal_settled p net"
| "perform p (Read_answered net) = fetchGoalData_settled net"

definition run :: "props \<Rightarrow> event list \<Rightarrow> screen \<Rightarrow> screen" where
  "run p events s = foldl (\<lambda>s1 e. snd (perform p e s1)) s events"

text \<open>
  Finalize followed by reopen: \<^verbatim>\<open>finalizeGoal\<close> is called and answered, then \<^verbatim>\<open>reopenGoal\<close> is
  called and answered and the read it started is answered. (From the call of
  \<^verbatim>\<open>finalizeGoal\<close> to the answer to its request the loading flag is true and the component
  returns the loading text alone, so nothing can be pressed in between.) The read that
  \<^verbatim>\<open>finalizeGoal\<close> started is answered after \<open>k\<close> of these last three events: before
  \<^verbatim>\<open>reopenGoal\<close> is called (\<open>k = 0\<close>), while its request is on its way (\<open>k = 1\<close>), while
  its read is on its way (\<open>k = 2\<close>), or after the answer to that later read (\<open>k\<close> from 3).
\<close>

definition round_trip ::
  "nat \<Rightarrow> exn + response \<Rightarrow> exn + response \<Rightarrow> exn + response \<Rightarrow> exn + response \<Rightarrow> event list"
  where
  "round_trip k post1 read1 post2 read2 =
     [Finalize_called, Finalize_answered post1]
     @ take k [Reopen_called, Reopen_answered post2, Read_answered read2]
     @ [Read_answered read1]
     @ drop k [Reopen_called, Reopen_answered post2, Read_answered read2]"

definition useFocusEffect :: "props \<Rightarrow> exn + response \<Rightarrow> unit action" where
  \<comment> \<open>on focus the goal is read unless the previous screen handed one over\<close>
  "useFocusEffect p net =
     (if \<not> to_boolean (updatedGoalData p) then fetchGoalData p net else act_return ())"

section \<open>The goal-detail screen: what it displays\<close>

text \<open>
  Each definition is one expression of the component's JSX, as a function of the field's
  value. An expression throws when it calls \<^verbatim>\<open>toFixed\<close> on a raw field that is not a
  number, and when it converts a field that cannot be converted.
\<close>

definition patrimony_display :: "jsval \<Rightarrow> exn + string" where
  "patrimony_display patrimony =
     (if to_boolean patrimony
      then then_exn (parseFloat patrimony) (\<lambda>parsed.
             if \<not> is_nan parsed
             then then_exn (parseFloat patrimony) (\<lambda>n. Inr (''R$'' @ toFixed 2 n))
             else Inr ''R$0.00'')
      else Inr ''R$0.00'')"

definition my_patrimony_display :: "jsval \<Rightarrow> exn + string" where
  "my_patrimony_display my_patrimony =
     (if to_boolean my_patrimony
      then then_exn (parseFloat my_patrimony) (\<lambda>parsed.
             if \<not> is_nan parsed
             then then_exn (parseFloat my_patrimony) (\<lambda>n. Inr (''R$'' @ toFixed 2 n))
             else Inr ''R$0.00'')
      else Inr ''R$0.00'')"

definition monthly_aport_display :: "jsval \<Rightarrow> exn + string" where
  "monthly_aport_display monthly_aport =
     (if to_boolean monthly_aport
      then then_exn (isNaN monthly_aport) (\<lambda>nan.
             if \<not> nan then call_toFixed 2 monthly_aport else Inr ''R$0.00'')
      else Inr ''R$0.00'')"

definition dividends_display :: "jsval \<Rightarrow> exn + jsval" where
  "dividends_display dividends =
     (if to_boolean dividends
      then then_exn (parseFloat dividends) (\<lambda>parsed.
             if \<not> is_nan parsed then Inr dividends else Inr (Str ''N/A''))
      else Inr (Str ''N/A''))"

definition rate_display :: "jsval \<Rightarrow> exn + jsval" where
  "rate_display rate =
     (if to_boolean rate
      then then_exn (parseFloat rate) (\<lambda>parsed.
             if \<not> is_nan parsed then Inr rate else Inr (Str ''N/A''))
      else Inr (Str ''N/A''))"

definition status_display :: "jsval \<Rightarrow> string" where
  "status_display status =
     (if to_boolean status then ''Conclu'' @ [CHR 0xED] @ ''da'' else ''Em Andamento'')"

definition timeRemaining :: "jsval \<Rightarrow> exn + string" where
  "timeRemaining time_desired = then_exn (Number time_desired) (\<lambda>n. Inr (toFixed 1 n))"

record detail =
  title :: string
  patrimonio :: string
  meu_patrimonio :: string
  aporte_mensal :: string
  dividendos :: string
  rendimento :: string
  status_label :: string
  aporte_necessario :: string
  tempo_estimado :: string

datatype view = LoadingView string | ErrorView string | DetailView detail

definition render_detail :: "jsval \<Rightarrow> exn + view" where
  \<comment> \<open>what the component returns for a goal that is there: \<^verbatim>\<open>timeRemaining\<close> is computed,
      then the expressions of the JSX are evaluated in their order, then React renders
      the children\<close>
  "render_detail g =
     then_exn (timeRemaining (field g ''time_desired'')) (\<lambda>time.
     then_exn (patrimony_display (field g ''patrimony'')) (\<lambda>patrimony.
     then_exn (my_patrimony_display (field g ''my_patrimony'')) (\<lambda>my_patrimony.
     then_exn (monthly_aport_display (field g ''monthly_aport'')) (\<lambda>aport.
     then_exn (dividends_display (field g ''dividends'')) (\<lambda>dividends.
     then_exn (rate_display (field g ''rate'')) (\<lambda>rate.
     then_exn (monthly_aport_display (field g ''monthly_aport'')) (\<lambda>aport2.
     then_exn (render_child (field g ''name'')) (\<lambda>name_text.
     then_exn (render_child dividends) (\<lambda>dividends_text.
     then_exn (render_child rate) (\<lambda>rate_text.
       Inr (DetailView
         \<lparr>title = name_text,
          patrimonio = patrimony,
          meu_patrimonio = my_patrimony,
          aporte_mensal = aport,
          dividendos = dividends_text,
          rendimento = rate_text,
          status_label = status_display (field g ''status''),
          aporte_necessario = ''Aporte Necess'' @ [CHR 0xE1] @ ''rio: '' @ aport2,
          tempo_estimado = ''Tempo Estimado: '' @ time @ '' anos''\<rparr>)))))))))))"

definition GoalDetailScreen :: "screen \<Rightarrow> exn + view" where
  \<comment> \<open>the component's return value for the state \<open>s\<close>\<close>
  "GoalDetailScreen s =
     (if loading s then Inr (LoadingView ''Carregando detalhes da meta...'')
      else if \<not> to_boolean (goalData s)
      then Inr (ErrorView (''Erro ao carregar os dados do plano de a''
                            @ [CHR 0xE7, CHR 0xE3] @ ''o.''))
      else render_detail (goalData s))"

section \<open>The definition-review screen\<close>

subsection \<open>What it displays\<close>

definition type_goal_review :: "jsval \<Rightarrow> string" where
  "type_goal_review type_goal =
     (if to_boolean type_goal then ''Dividendo'' else ''Patrim'' @ [CHR 0xF4] @ ''nio'')"

definition patrimony_review :: "jsval \<Rightarrow> exn + string" where
  "patrimony_review v =
     then_exn (parseFloat v) (\<lambda>patrimony.
       if is_nan patrimony then Inr ''N/A'' else Inr (toFixed 2 patrimony))"

definition dividends_review :: "jsval \<Rightarrow> exn + string" where
  "dividends_review dividends =
     then_exn (isNaN dividends) (\<lambda>nan.
       if nan then Inr ''N/A'' else call_toFixed 2 dividends)"

definition my_patrimony_review :: "jsval \<Rightarrow> exn + string" where
  "my_patrimony_review v =
     then_exn (parseFloat v) (\<lambda>myPatrimony.
       if is_nan myPatrimony then Inr ''N/A'' else Inr (toFixed 2 myPatrimony))"

definition rate_review :: "jsval \<Rightarrow> exn + string" where
  \<comment> \<open>\<^verbatim>\<open>rate * 100\<close> converts \<^verbatim>\<open>rate\<close> to a number and multiplies\<close>
  "rate_review rate =
     then_exn (isNaN rate) (\<lambda>nan.
       if nan then Inr ''N/A''
       else then_exn (to_number rate) (\<lambda>n. Inr (toFixed 2 (times100 n))))"

definition time_desired_review :: "jsval \<Rightarrow> exn + string" where
  "time_desired_review v =
     then_exn (parseFloat v) (\<lambda>timeDesired.
       if is_nan timeDesired then Inr ''N/A'' else Inr (toFixed 2 timeDesired))"

record review =
  nome :: string
  tipo_de_meta :: string
  patrimonio_desejado :: string
  dividendos_r :: string
  meu_patrimonio_r :: string
  taxa :: string
  tempo_desejado :: string

datatype review_view = DefiningView string | ReviewView review

definition GoalDefineScreen :: "bool \<Rightarrow> jsval \<Rightarrow> exn + review_view" where
  \<comment> \<open>the component's return value for its state \<^verbatim>\<open>loading\<close> and \<^verbatim>\<open>goalData\<close>. The first
      field read, \<^verbatim>\<open>goalData.name\<close>, throws when \<^verbatim>\<open>goalData\<close> is \<^verbatim>\<open>null\<close> or \<^verbatim>\<open>undefined\<close>.
      The expressions of the JSX are evaluated in their order, then React renders the
      children. The text of the rate is the expression followed by \<^verbatim>\<open>%\<close>. The
      \<^verbatim>\<open>console.log\<close> calls are left out.\<close>
  "GoalDefineScreen is_loading g =
     (if is_loading then Inr (DefiningView ''Definindo meta...'')
      else if nullish g then Inl TypeError
      else then_exn (patrimony_review (field g ''patrimony'')) (\<lambda>patrimony.
           then_exn (dividends_review (field g ''dividends'')) (\<lambda>dividends.
           then_exn (my_patrimony_review (field g ''my_patrimony'')) (\<lambda>my_patrimony.
           then_exn (rate_review (field g ''rate'')) (\<lambda>rate.
           then_exn (time_desired_review (field g ''time_desired'')) (\<lambda>time_desired.
           then_exn (render_child (field g ''name'')) (\<lambda>name_text.
             Inr (ReviewView
               \<lparr>nome = name_text,
                tipo_de_meta = type_goal_review (field g ''type_goal''),
                patrimonio_desejado = patrimony,
                dividendos_r = dividends,
                meu_patrimonio_r = my_patrimony,
                taxa = rate @ ''%'',
                tempo_desejado = time_desired\<rparr>))))))))"

subsection \<open>Creating the goal\<close>

text \<open>
  \<^verbatim>\<open>handleCreateGoal\<close> up to the request it sends. \<open>spread\<close> is \<^verbatim>\<open>{ ...goalData }\<close>, the own
  enumerable properties: of an object its properties, of an array or a string its
  elements under their indices, of anything else none. \<open>json_image\<close> is the document
  \<^verbatim>\<open>JSON.stringify\<close> writes, as the value a JSON parser reads from it: a property whose
  value is \<^verbatim>\<open>undefined\<close> is left out, an \<^verbatim>\<open>undefined\<close> array element and a number that is
  not finite become \<^verbatim>\<open>null\<close>.
\<close>

definition indexed :: "jsval list \<Rightarrow> (string \<times> jsval) list" where
  "indexed xs = zip (map (\<lambda>i. digits_of (int i)) [0..<length xs]) xs"

definition spread :: "jsval \<Rightarrow> (string \<times> jsval) list" where
  "spread v =
     (case v of
        Obj ps \<Rightarrow> ps
      | Arr xs \<Rightarrow> indexed xs
      | Str s \<Rightarrow> indexed (map (\<lambda>c. Str [c]) s)
      | _ \<Rightarrow> [])"

definition delete_property :: "string \<Rightarrow> (string \<times> jsval) list \<Rightarrow> (string \<times> jsval) list" where
  "delete_property k ps = filter (\<lambda>p. fst p \<noteq> k) ps"

definition dataToSend :: "jsval \<Rightarrow> exn + (string \<times> jsval) list" where
  \<comment> \<open>the object handed to \<^verbatim>\<open>JSON.stringify\<close>; reading \<^verbatim>\<open>goalData.monthly_aport\<close> throws when
      \<^verbatim>\<open>goalData\<close> is \<^verbatim>\<open>null\<close> or \<^verbatim>\<open>undefined\<close>\<close>
  "dataToSend g =
     (if nullish g then Inl TypeError
      else if to_boolean (field g ''monthly_aport'')
      then Inr (delete_property ''monthly_aport'' (spread g))
      else Inr (spread g))"

fun json_image :: "jsval \<Rightarrow> jsval" where
  "json_image (Num n) = (case n of Fin q \<Rightarrow> Num (Fin q) | _ \<Rightarrow> Null)"
| "json_image (Arr xs) = Arr (map (\<lambda>x. if x = Undefined then Null else json_image x) xs)"
| "json_image (Obj ps) =
     Obj (map (\<lambda>p. (fst p, json_image (snd p))) (filter (\<lambda>p. snd p \<noteq> Undefined) ps))"
| "json_image v = v"

definition handleCreateGoal_request :: "string \<Rightarrow> jsval \<Rightarrow> exn + request" where
  "handleCreateGoal_request tok g =
     then_exn (dataToSend g) (\<lambda>d.
       Inr \<lparr>req_method = POST,
            req_url = ''https://fortuna-api.onrender.com/api/goals'',
            req_content_type = ''application/json'',
            req_authorization = ''Bearer '' @ tok,
            req_body = json_image (Obj d)\<rparr>)"

subsection \<open>Summary truncation\<close>

text \<open>
  \<^verbatim>\<open>getLimitedSummary\<close> of \<^verbatim>\<open>GoalDefineScreen\<close>. A JavaScript string is a sequence of
  code units; \<^verbatim>\<open>length\<close> counts them and \<^verbatim>\<open>substring(0, n)\<close> keeps the first \<open>n\<close>.
  The component state \<^verbatim>\<open>showFullSummary\<close> is passed explicitly.
\<close>

definition maxLength :: nat where
  "maxLength = 250"

definition getLimitedSummary :: "bool \<Rightarrow> string \<Rightarrow> string" where
  "getLimitedSummary showFullSummary summary =
     (if length summary > maxLength \<and> \<not> showFullSummary
      then take maxLength summary @ ''...''
      else summary)"

section \<open>Sample data\<close>

definition sample_props :: props where
  "sample_props = \<lparr>goalId = ''42'', token = ''tk'', updatedGoalData = Undefined\<rparr>"

definition not_found :: response where
  \<comment> \<open>a 404 answer\<close>
  "not_found = \<lparr>ok = False, body_text = Inr ''not found'', body_json = Inl SyntaxError\<rparr>"

definition unreadable :: response where
  \<comment> \<open>a 500 answer whose body cannot be read\<close>
  "unreadable = \<lparr>ok = False, body_text = Inl (Error ''aborted''), body_json = Inl (Error ''aborted'')\<rparr>"

definition no_content :: response where
  \<comment> \<open>a success answer with an empty body\<close>
  "no_content = \<lparr>ok = True, body_text = Inr [], body_json = Inl SyntaxError\<rparr>"

definition found :: "jsval list \<Rightarrow> response" where
  \<comment> \<open>a 200 answer whose body is a JSON array\<close>
  "found goals = \<lparr>ok = True, body_text = Inr ''[...]'', body_json = Inr (Arr goals)\<rparr>"

definition sample_goal :: "bool \<Rightarrow> jsval" where
  "sample_goal finalized =
     Obj [(''id'', Str ''42''), (''name'', Str ''Casa''), (''patrimony'', Str ''1234.5''),
          (''my_patrimony'', Str ''abc''), (''monthly_aport'', Num (Fin (2469 / 2))),
          (''dividends'', Str ''5.5''), (''rate'', Str ''0.08''),
          (''status'', Bool finalized), (''time_desired'', Num (Fin 7))]"

definition sample_draft :: jsval where
  \<comment> \<open>a goal as the definition service answers it, its numbers as numbers\<close>
  "sample_draft =
     Obj [(''name'', Str ''Casa''), (''type_goal'', Bool False),
          (''patrimony'', Num (Fin (2469 / 2))), (''dividends'', Num (Fin (11 / 2))),
          (''my_patrimony'', Num (Fin 100)), (''rate'', Num (Fin (1 / 8))),
          (''time_desired'', Num (Fin 7)), (''monthly_aport'', Num (Fin (2469 / 2)))]"

definition showing :: "jsval \<Rightarrow> screen" where
  \<comment> \<open>the detail screen holding the goal \<open>g\<close>, nothing in flight\<close>
  "showing g = (initial sample_props)\<lparr>goalData := g, loading := False\<rparr>"

definition sample_detail :: detail where
  "sample_detail =
     \<lparr>title = ''Casa'', patrimonio = ''R$1234.50'', meu_patrimonio = ''R$0.00'',
      aporte_mensal = ''1234.50'', dividendos = ''5.5'', rendimento = ''0.08'',
      status_label = ''Em Andamento'',
      aporte_necessario = ''Aporte Necess'' @ [CHR 0xE1] @ ''rio: 1234.50'',
      tempo_estimado = ''Tempo Estimado: 7.0 anos''\<rparr>"

definition sample_review :: review where
  "sample_review =
     \<lparr>nome = ''Casa'', tipo_de_meta = ''Patrim'' @ [CHR 0xF4] @ ''nio'',
      patrimonio_desejado = ''1234.50'', dividendos_r = ''5.50'',
      meu_patrimonio_r = ''100.00'', taxa = ''12.50%'', tempo_desejado = ''7.00''\<rparr>"

section \<open>Evaluation\<close>

text \<open>
  Facts that let the simplifier compute with the definitions above on literals: floor
  and ceiling of a quotient of numerals, and the defining equations, with each
  \<^theory_text>\<open>let\<close> unfolded only once its bound value has been computed.
\<close>

lemma floor_rat_numeral [simp]:
  "\<lfloor>(numeral a :: rat) / numeral b\<rfloor> = numeral a div numeral b"
  using floor_divide_of_int_eq [of "numeral a" "numeral b", where ?'a = rat] by simp

lemma ceiling_rat_numeral [simp]:
  "\<lceil>(numeral a :: rat) / numeral b\<rceil> = - ((- numeral a) div numeral b)"
  using floor_divide_of_int_eq [of "- numeral a" "numeral b", where ?'a = rat]
  by (simp add: ceiling_def)

lemma floor_rat_one_div [simp]: "\<lfloor>(1 :: rat) / numeral b\<rfloor> = 1 div numeral b"
  using floor_divide_of_int_eq [of 1 "numeral b", where ?'a = rat] by simp

lemma ceiling_rat_one_div [simp]: "\<lceil>(1 :: rat) / numeral b\<rceil> = - ((- 1) div numeral b)"
  using floor_divide_of_int_eq [of "- 1" "numeral b", where ?'a = rat]
  by (simp add: ceiling_def)

lemma replicate_numeral [simp]:
  "replicate (numeral k) x = x # replicate (pred_numeral k) x"
  by (simp add: numeral_eq_Suc)

lemmas number_eval =
  pow2_def pow10_def floor_log2_def round_half_even_def round_double_def bitlen.simps
  is_digit_def digit_val_def digits_val_def is_ws_def parse_exponent_def parse_unsigned_def
  finish_number_def parse_signed_def parseFloat_str_def digit_char_def digits_of.simps
  dec_exp_def repr_ok_def candidates_def closer_def shortest.simps best_def layout_def
  pos_to_string_def num_to_string_def toFixed_def trim_def string_to_number_def
  nondecimal_def radix_of_def radix_digit_def is_nan_def negate_def times100_def Let_def

lemmas value_eval =
  to_number_def to_boolean_def isNaN_def parseFloat_def Number_def call_toFixed_def
  nullish_def field_def then_exn_def has_own_def

lemmas action_eval =
  try_catch_finally_def act_then_def act_bind_def act_return_def act_throw_def await_def
  evaluate_def setLoading_def setGoalData_def fetch_def Alert_alert_def console_error_def
  navigation_navigate_def failed_response_def

lemma parseFloat_1234_5: "parseFloat (Str ''1234.5'') = Inr (Fin (2469 / 2))"
  by (simp add: number_eval value_eval split del: if_split cong: let_weak_cong)

lemma parseFloat_abc: "parseFloat (Str ''abc'') = Inr NaN"
  by (simp add: number_eval value_eval split del: if_split cong: let_weak_cong)

lemma parseFloat_absent: "parseFloat Undefined = Inr NaN"
  by (simp add: number_eval value_eval split del: if_split cong: let_weak_cong)

lemma to_number_5_5: "to_number (Str ''5.5'') = Inr (Fin (11 / 2))"
  by (simp add: number_eval value_eval split del: if_split cong: let_weak_cong)

lemma to_number_empty: "to_number (Str []) = Inr (Fin 0)"
  by (simp add: number_eval value_eval split del: if_split cong: let_weak_cong)

lemmas detail_eval =
  GoalDetailScreen_def render_detail_def monthly_aport_display_def patrimony_display_def
  my_patrimony_display_def dividends_display_def rate_display_def status_display_def
  timeRemaining_def

lemmas review_eval =
  GoalDefineScreen_def type_goal_review_def patrimony_review_def dividends_review_def
  my_patrimony_review_def rate_review_def time_desired_review_def

lemma timeRemaining_seven: "timeRemaining (Num (Fin 7)) = Inr ''7.0''"
  by (simp add: timeRemaining_def number_eval value_eval
        split del: if_split cong: let_weak_cong)

lemma time_desired_review_seven: "time_desired_review (Num (Fin 7)) = Inr ''7.00''"
  by (simp add: time_desired_review_def number_eval value_eval
        split del: if_split cong: let_weak_cong)

lemma render_sample_goal:
  "GoalDetailScreen (showing (sample_goal False)) = Inr (DetailView sample_detail)"
  by (simp add: showing_def sample_goal_def sample_detail_def detail_eval number_eval value_eval
        split del: if_split cong: let_weak_cong)

lemma render_sample_draft:
  "GoalDefineScreen False sample_draft = Inr (ReviewView sample_review)"
  by (simp add: sample_draft_def sample_review_def review_eval number_eval value_eval
        split del: if_split cong: let_weak_cong)

section \<open>Properties of the goal-detail screen's operations\<close>

text \<open>
  The statements about one operation take the way its request settles as a parameter
  and hold from every state of the screen. The statement about finalize followed by
  reopen is about the events of the two operations and of the reads they start, in
  every order in which the answers to the two reads arrive as the reads were sent.
\<close>

subsection \<open>How each operation ends\<close>

text \<open>
  The result and the final state of each operation, by the way its request settles.
\<close>

lemma fetchGoalData_rejected:
  "fetchGoalData p (Inl e) s
     = (Inr (), s\<lparr>loading := False,
                    requests := requests s @ [api_request GET [] p],
                    alerts := alerts s @ [(''Erro'', ''Falha ao buscar os dados da meta.'')],
                    console := console s @ [LogError e]\<rparr>)"
  by (simp add: fetchGoalData_def action_eval)

lemma fetchGoalData_not_ok:
  assumes "\<not> ok r"
  shows "fetchGoalData p (Inr r) s
     = (Inr (), s\<lparr>loading := False,
                    requests := requests s @ [api_request GET [] p],
                    alerts := alerts s @ [(''Erro'', ''Falha ao buscar os dados da meta.'')],
                    console := console s @
                      (case body_text r of
                         Inl e \<Rightarrow> [LogError e]
                       | Inr b \<Rightarrow> [LogData ''Error response data:'' b,
                                   LogError (Error ''Failed to fetch goal data'')])\<rparr>)"
  using assms by (simp add: fetchGoalData_def action_eval split: sum.splits)

lemma fetchGoalData_ok:
  assumes "ok r"
  shows "fetchGoalData p (Inr r) s
     = (case then_exn (body_json r) index0 of
          Inr g \<Rightarrow>
            (Inr (), s\<lparr>goalData := g, loading := False,
                          requests := requests s @ [api_request GET [] p]\<rparr>)
        | Inl e \<Rightarrow>
            (Inr (), s\<lparr>loading := False,
                          requests := requests s @ [api_request GET [] p],
                          alerts := alerts s @ [(''Erro'', ''Falha ao buscar os dados da meta.'')],
                          console := console s @ [LogError e]\<rparr>))"
  using assms by (simp add: fetchGoalData_def action_eval then_exn_def split: sum.splits)

lemma deleteGoal_rejected:
  "deleteGoal p (Inl e) s
     = (Inr (), s\<lparr>loading := False,
                    requests := requests s @ [api_request DELETE [] p],
                    alerts := alerts s @ [(''Erro'', ''Falha ao deletar a meta.'')],
                    console := console s @ [LogError e]\<rparr>)"
  by (simp add: deleteGoal_def action_eval)

lemma deleteGoal_not_ok:
  assumes "\<not> ok r"
  shows "deleteGoal p (Inr r) s
     = (Inr (), s\<lparr>loading := False,
                    requests := requests s @ [api_request DELETE [] p],
                    alerts := alerts s @ [(''Erro'', ''Falha ao deletar a meta.'')],
                    console := console s @
                      (case body_text r of
                         Inl e \<Rightarrow> [LogError e]
                       | Inr b \<Rightarrow> [LogData ''Error response data:'' b,
                                   LogError (Error ''Failed to delete goal'')])\<rparr>)"
  using assms by (simp add: deleteGoal_def action_eval split: sum.splits)

lemma deleteGoal_ok:
  assumes "ok r"
  shows "deleteGoal p (Inr r) s
     = (Inr (), s\<lparr>loading := False,
                    requests := requests s @ [api_request DELETE [] p],
                    navigated := navigated s @ [''Metas'']\<rparr>)"
  using assms by (simp add: deleteGoal_def action_eval)

lemma fetchGoalData_in_two_parts:
  "fetchGoalData p net s = fetchGoalData_settled net (snd (fetchGoalData_sync p s))"
  by (simp add: fetchGoalData_def fetchGoalData_settled_def fetchGoalData_sync_def action_eval
        split: sum.splits prod.splits)

lemma fetchGoalData_settled_ok:
  assumes "ok r" and "body_json r = Inr (Arr (g # rest))"
  shows "fetchGoalData_settled (Inr r) s = (Inr (), s\<lparr>goalData := g, loading := False\<rparr>)"
  using assms by (simp add: fetchGoalData_settled_def action_eval index0_def)

lemma finalizeGoal_ok:
  assumes "ok r"
  shows "finalizeGoal p (Inr r) s
     = (Inr (), s\<lparr>loading := False,
                    requests := requests s @ [api_request POST ''finalize/'' p,
                                              api_request GET [] p],
                    alerts := alerts s @ [(''Sucesso'', ''Meta finalizada com sucesso.'')]\<rparr>)"
  using assms by (simp add: finalizeGoal_def fetchGoalData_sync_def action_eval)

lemma reopenGoal_ok:
  assumes "ok r"
  shows "reopenGoal p (Inr r) s
     = (Inr (), s\<lparr>loading := False,
                    requests := requests s @ [api_request POST ''reopen/'' p,
                                              api_request GET [] p],
                    alerts := alerts s @ [(''Sucesso'', ''Meta reaberta com sucesso.'')]\<rparr>)"
  using assms by (simp add: reopenGoal_def fetchGoalData_sync_def action_eval)

lemma finalizeGoal_in_two_parts:
  "finalizeGoal p net s = finalizeGoal_settled p net (snd (finalizeGoal_sync p s))"
  by (simp add: finalizeGoal_def finalizeGoal_settled_def finalizeGoal_sync_def action_eval
        split: sum.splits prod.splits)

lemma reopenGoal_in_two_parts:
  "reopenGoal p net s = reopenGoal_settled p net (snd (reopenGoal_sync p s))"
  by (simp add: reopenGoal_def reopenGoal_settled_def reopenGoal_sync_def action_eval
        split: sum.splits prod.splits)

lemma finalizeGoal_called:
  "finalizeGoal_sync p s
     = (Inr (), s\<lparr>loading := True,
                    requests := requests s @ [api_request POST ''finalize/'' p]\<rparr>)"
  by (simp add: finalizeGoal_sync_def action_eval)

lemma reopenGoal_called:
  "reopenGoal_sync p s
     = (Inr (), s\<lparr>loading := True,
                    requests := requests s @ [api_request POST ''reopen/'' p]\<rparr>)"
  by (simp add: reopenGoal_sync_def action_eval)

lemma finalizeGoal_answered_ok:
  assumes "ok r"
  shows "finalizeGoal_settled p (Inr r) s
     = (Inr (), s\<lparr>loading := False,
                    requests := requests s @ [api_request GET [] p],
                    alerts := alerts s @ [(''Sucesso'', ''Meta finalizada com sucesso.'')]\<rparr>)"
  using assms by (simp add: finalizeGoal_settled_def fetchGoalData_sync_def action_eval)

lemma reopenGoal_answered_ok:
  assumes "ok r"
  shows "reopenGoal_settled p (Inr r) s
     = (Inr (), s\<lparr>loading := False,
                    requests := requests s @ [api_request GET [] p],
                    alerts := alerts s @ [(''Sucesso'', ''Meta reaberta com sucesso.'')]\<rparr>)"
  using assms by (simp add: reopenGoal_settled_def fetchGoalData_sync_def action_eval)


lemma run_Nil: "run p [] s = s"
  by (simp add: run_def)

lemma run_Cons: "run p (e # es) s = run p es (snd (perform p e s))"
  by (simp add: run_def)

lemma round_trip_orders:
  "round_trip 0 post1 read1 post2 read2
     = [Finalize_called, Finalize_answered post1, Read_answered read1,
        Reopen_called, Reopen_answered post2, Read_answered read2]"
  "round_trip 1 post1 read1 post2 read2
     = [Finalize_called, Finalize_answered post1, Reopen_called, Read_answered read1,
        Reopen_answered post2, Read_answered read2]"
  "round_trip 2 post1 read1 post2 read2
     = [Finalize_called, Finalize_answered post1, Reopen_called, Reopen_answered post2,
        Read_answered read1, Read_answered read2]"
  "3 \<le> k \<Longrightarrow> round_trip k post1 read1 post2 read2
     = [Finalize_called, Finalize_answered post1, Reopen_called, Reopen_answered post2,
        Read_answered read2, Read_answered read1]"
  by (simp_all add: round_trip_def numeral_2_eq_2)

lemma round_trip_in_sequence:
  "run p (round_trip 0 post1 read1 post2 read2) s
     = snd (fetchGoalData_settled read2 (snd (reopenGoal p post2
         (snd (fetchGoalData_settled read1 (snd (finalizeGoal p post1 s)))))))"
  by (simp add: round_trip_orders run_Cons run_Nil finalizeGoal_in_two_parts
        reopenGoal_in_two_parts)


subsection \<open>The claims\<close>

text \<open>
  C7. Whatever the read request does (it is rejected, it is answered with a non-success
  status, it is answered with success), \<^verbatim>\<open>fetchGoalData\<close> ends normally, no exception
  leaves it, and the loading flag is false at its end. When the request is rejected or
  answered with a non-success status, the alert \<^verbatim>\<open>Falha ao buscar os dados da meta.\<close> is
  raised and the console gets the error: for a non-success answer whose body could be
  read, the body and then the error \<^verbatim>\<open>Failed to fetch goal data\<close>; otherwise the error
  the request or the body's read was rejected with.
\<close>

theorem fetchGoalData_always_completes:
  "fst (fetchGoalData p net s) = Inr ()
   \<and> \<not> loading (snd (fetchGoalData p net s))
   \<and> (\<forall>e. net = Inl e \<longrightarrow>
          alerts (snd (fetchGoalData p net s))
            = alerts s @ [(''Erro'', ''Falha ao buscar os dados da meta.'')]
        \<and> console (snd (fetchGoalData p net s)) = console s @ [LogError e])
   \<and> (\<forall>r b. net = Inr r \<and> \<not> ok r \<and> body_text r = Inr b \<longrightarrow>
          alerts (snd (fetchGoalData p net s))
            = alerts s @ [(''Erro'', ''Falha ao buscar os dados da meta.'')]
        \<and> console (snd (fetchGoalData p net s))
            = console s @ [LogData ''Error response data:'' b,
                           LogError (Error ''Failed to fetch goal data'')])
   \<and> (\<forall>r e. net = Inr r \<and> \<not> ok r \<and> body_text r = Inl e \<longrightarrow>
          alerts (snd (fetchGoalData p net s))
            = alerts s @ [(''Erro'', ''Falha ao buscar os dados da meta.'')]
        \<and> console (snd (fetchGoalData p net s)) = console s @ [LogError e])"
proof (cases net)
  case (Inl e)
  then show ?thesis by (simp add: fetchGoalData_rejected)
next
  case (Inr r)
  show ?thesis
  proof (cases "ok r")
    case True
    with Inr show ?thesis by (simp add: fetchGoalData_ok split: sum.splits)
  next
    case False
    with Inr show ?thesis by (simp add: fetchGoalData_not_ok split: sum.splits)
  qed
qed

theorem fetchGoalData_always_completes_witness:
  "fst (fetchGoalData sample_props (Inr not_found) (initial sample_props)) = Inr ()
   \<and> \<not> loading (snd (fetchGoalData sample_props (Inr not_found) (initial sample_props)))
   \<and> alerts (snd (fetchGoalData sample_props (Inr not_found) (initial sample_props)))
       = [(''Erro'', ''Falha ao buscar os dados da meta.'')]
   \<and> console (snd (fetchGoalData sample_props (Inr not_found) (initial sample_props)))
       = [LogData ''Error response data:'' ''not found'',
          LogError (Error ''Failed to fetch goal data'')]
   \<and> alerts (snd (fetchGoalData sample_props (Inr unreadable) (initial sample_props)))
       = [(''Erro'', ''Falha ao buscar os dados da meta.'')]
   \<and> console (snd (fetchGoalData sample_props (Inr unreadable) (initial sample_props)))
       = [LogError (Error ''aborted'')]
   \<and> alerts (snd (fetchGoalData sample_props (Inl TypeError) (initial sample_props)))
       = [(''Erro'', ''Falha ao buscar os dados da meta.'')]
   \<and> console (snd (fetchGoalData sample_props (Inl TypeError) (initial sample_props)))
       = [LogError TypeError]"
  using fetchGoalData_always_completes [of sample_props "Inr not_found" "initial sample_props"]
        fetchGoalData_always_completes [of sample_props "Inr unreadable" "initial sample_props"]
        fetchGoalData_always_completes [of sample_props "Inl TypeError" "initial sample_props"]
  by (simp add: not_found_def unreadable_def initial_def)

text \<open>
  C10. When the read request is answered with success and the body is the empty JSON
  array, \<^verbatim>\<open>fetchGoalData\<close> sets the goal to \<^verbatim>\<open>data[0]\<close>, which is \<^verbatim>\<open>undefined\<close>, clears the
  loading flag and raises no alert; the screen then shows the static error text of
  its \<^verbatim>\<open>!goalData\<close> branch in place of the goal's fields.
\<close>

theorem empty_array_read:
  "net = Inr r \<Longrightarrow> ok r \<Longrightarrow> body_json r = Inr (Arr []) \<Longrightarrow>
   fst (fetchGoalData p net s) = Inr ()
   \<and> goalData (snd (fetchGoalData p net s)) = Undefined
   \<and> \<not> loading (snd (fetchGoalData p net s))
   \<and> alerts (snd (fetchGoalData p net s)) = alerts s
   \<and> console (snd (fetchGoalData p net s)) = console s
   \<and> requests (snd (fetchGoalData p net s)) = requests s @ [api_request GET [] p]
   \<and> GoalDetailScreen (snd (fetchGoalData p net s))
       = Inr (ErrorView (''Erro ao carregar os dados do plano de a''
                          @ [CHR 0xE7, CHR 0xE3] @ ''o.''))"
proof -
  assume net: "net = Inr r" and ok: "ok r" and body: "body_json r = Inr (Arr [])"
  have "then_exn (body_json r) index0 = Inr Undefined"
    by (simp add: body then_exn_def index0_def)
  then have "fetchGoalData p net s
      = (Inr (), s\<lparr>goalData := Undefined, loading := False,
                     requests := requests s @ [api_request GET [] p]\<rparr>)"
    by (simp add: net fetchGoalData_ok [OF ok])
  then show ?thesis
    by (simp add: GoalDetailScreen_def to_boolean_def)
qed

theorem empty_array_read_witness:
  "ok (found [])
   \<and> body_json (found []) = Inr (Arr [])
   \<and> goalData (snd (fetchGoalData sample_props (Inr (found [])) (initial sample_props)))
       = Undefined
   \<and> \<not> loading (snd (fetchGoalData sample_props (Inr (found [])) (initial sample_props)))
   \<and> alerts (snd (fetchGoalData sample_props (Inr (found [])) (initial sample_props))) = []
   \<and> GoalDetailScreen (snd (fetchGoalData sample_props (Inr (found [])) (initial sample_props)))
       = Inr (ErrorView (''Erro ao carregar os dados do plano de a''
                          @ [CHR 0xE7, CHR 0xE3] @ ''o.''))"
  using empty_array_read [of "Inr (found [])" "found []" sample_props "initial sample_props"]
  by (simp add: found_def initial_def)

text \<open>
  C6. When the delete request is answered with a non-success status, \<^verbatim>\<open>deleteGoal\<close> raises
  the alert \<^verbatim>\<open>Falha ao deletar a meta.\<close>, does not navigate, and writes the response body
  (when the body can be read) and the error to the console. When it is answered with
  success, \<^verbatim>\<open>deleteGoal\<close> navigates to \<^verbatim>\<open>Metas\<close> and leaves the goal held by the screen as
  it was, with no alert. Either way it ends normally with the loading flag false,
  having sent one DELETE request.
\<close>

theorem deleteGoal_outcomes:
  "net = Inr r \<Longrightarrow>
   (\<not> ok r \<longrightarrow>
      alerts (snd (deleteGoal p net s)) = alerts s @ [(''Erro'', ''Falha ao deletar a meta.'')]
      \<and> navigated (snd (deleteGoal p net s)) = navigated s
      \<and> (\<forall>b. body_text r = Inr b \<longrightarrow>
            console (snd (deleteGoal p net s))
              = console s @ [LogData ''Error response data:'' b,
                             LogError (Error ''Failed to delete goal'')]))
   \<and> (ok r \<longrightarrow>
      navigated (snd (deleteGoal p net s)) = navigated s @ [''Metas'']
      \<and> goalData (snd (deleteGoal p net s)) = goalData s
      \<and> alerts (snd (deleteGoal p net s)) = alerts s
      \<and> console (snd (deleteGoal p net s)) = console s)
   \<and> fst (deleteGoal p net s) = Inr ()
   \<and> \<not> loading (snd (deleteGoal p net s))
   \<and> requests (snd (deleteGoal p net s)) = requests s @ [api_request DELETE [] p]"
proof (cases "ok r")
  case True
  assume "net = Inr r"
  with True show ?thesis by (simp add: deleteGoal_ok)
next
  case False
  assume "net = Inr r"
  with False show ?thesis by (simp add: deleteGoal_not_ok)
qed

theorem deleteGoal_outcomes_witness:
  "\<not> ok not_found
   \<and> alerts (snd (deleteGoal sample_props (Inr not_found) (initial sample_props)))
       = [(''Erro'', ''Falha ao deletar a meta.'')]
   \<and> navigated (snd (deleteGoal sample_props (Inr not_found) (initial sample_props))) = []
   \<and> console (snd (deleteGoal sample_props (Inr not_found) (initial sample_props)))
       = [LogData ''Error response data:'' ''not found'',
          LogError (Error ''Failed to delete goal'')]
   \<and> ok no_content
   \<and> navigated (snd (deleteGoal sample_props (Inr no_content) (initial sample_props)))
       = [''Metas'']
   \<and> goalData (snd (deleteGoal sample_props (Inr no_content) (initial sample_props)))
       = goalData (initial sample_props)
   \<and> alerts (snd (deleteGoal sample_props (Inr no_content) (initial sample_props))) = []"
  using deleteGoal_outcomes [of "Inr not_found" not_found sample_props "initial sample_props"]
        deleteGoal_outcomes [of "Inr no_content" no_content sample_props "initial sample_props"]
  by (simp add: not_found_def no_content_def initial_def)

text \<open>
  When the answer to the read that \<^verbatim>\<open>finalizeGoal\<close> started arrives after the answer to the
  read that \<^verbatim>\<open>reopenGoal\<close> started, the screen is left holding the goal of the earlier read:
  nothing in the screen tells the answers apart.
\<close>

lemma read_answered_last_is_kept:
  assumes "ok r1" and "ok r2"
    and "ok g1" and "body_json g1 = Inr (Arr (goal1 # rest1))"
    and "ok g2" and "body_json g2 = Inr (Arr (goal2 # rest2))"
    and "3 \<le> k"
  shows "goalData (run p (round_trip k (Inr r1) (Inr g1) (Inr r2) (Inr g2)) s) = goal1"
  using assms
  by (simp add: round_trip_orders run_Cons run_Nil finalizeGoal_called reopenGoal_called
        finalizeGoal_answered_ok reopenGoal_answered_ok fetchGoalData_settled_ok)



section \<open>Properties of the definition-review screen\<close>

text \<open>
  C5. A summary of length 300 is displayed, when \<^verbatim>\<open>showFullSummary\<close> is false, as its first
  250 characters followed by \<^verbatim>\<open>...\<close>, 253 characters in all, and unchanged when
  \<^verbatim>\<open>showFullSummary\<close> is true; a summary of length at most 250 is returned unchanged
  whatever the flag.
\<close>

theorem summary_truncation:
  "(length summary = 300 \<longrightarrow>
      getLimitedSummary False summary = take 250 summary @ ''...''
      \<and> length (getLimitedSummary False summary) = 253
      \<and> getLimitedSummary True summary = summary)
   \<and> (length summary \<le> 250 \<longrightarrow> getLimitedSummary showFull summary = summary)"
  by (simp add: getLimitedSummary_def maxLength_def)

theorem summary_truncation_witness:
  "length (replicate 300 CHR ''a'') = 300
   \<and> getLimitedSummary False (replicate 300 CHR ''a'') = replicate 250 CHR ''a'' @ ''...''
   \<and> length (getLimitedSummary False (replicate 300 CHR ''a'')) = 253
   \<and> getLimitedSummary True (replicate 300 CHR ''a'') = replicate 300 CHR ''a''
   \<and> length ''abc'' \<le> 250 \<and> getLimitedSummary False ''abc'' = ''abc''"
  using summary_truncation [of "replicate 300 CHR ''a''" False]
        summary_truncation [of "''abc''" False]
  by simp

subsection \<open>The request that creates the goal\<close>

text \<open>
  What \<^verbatim>\<open>handleCreateGoal\<close> sends for a draft that is an object: the test it makes is
  \<^verbatim>\<open>if (goalData.monthly_aport)\<close>, so \<^verbatim>\<open>monthly_aport\<close> is deleted when its value is truthy
  and the draft is sent whole when its value is falsy.
\<close>

lemma field_json_image_delete:
  "field (json_image (Obj (delete_property k ps))) k'
     = (if k' = k then Undefined else field (json_image (Obj ps)) k')"
  by (induction ps) (auto simp: field_def delete_property_def)

lemma handleCreateGoal_request_body:
  "g = Obj ps \<Longrightarrow>
   (to_boolean (field g ''monthly_aport'') \<longrightarrow>
      handleCreateGoal_request tok g
        = Inr \<lparr>req_method = POST, req_url = ''https://fortuna-api.onrender.com/api/goals'',
               req_content_type = ''application/json'', req_authorization = ''Bearer '' @ tok,
               req_body = json_image (Obj (delete_property ''monthly_aport'' ps))\<rparr>
      \<and> field (json_image (Obj (delete_property ''monthly_aport'' ps))) ''monthly_aport''
          = Undefined
      \<and> (\<forall>k. k \<noteq> ''monthly_aport'' \<longrightarrow>
             field (json_image (Obj (delete_property ''monthly_aport'' ps))) k
               = field (json_image g) k))
   \<and> (\<not> to_boolean (field g ''monthly_aport'') \<longrightarrow>
      handleCreateGoal_request tok g
        = Inr \<lparr>req_method = POST, req_url = ''https://fortuna-api.onrender.com/api/goals'',
               req_content_type = ''application/json'', req_authorization = ''Bearer '' @ tok,
               req_body = json_image g\<rparr>)"
  by (simp add: handleCreateGoal_request_def dataToSend_def then_exn_def nullish_def spread_def
        field_json_image_delete del: json_image.simps)

text \<open>
  C3 at a draft whose \<^verbatim>\<open>monthly_aport\<close> is 0. The draft has the field, and the body of the
  request has it too, with its value 0: the test \<^verbatim>\<open>if (goalData.monthly_aport)\<close> that guards
  the \<^verbatim>\<open>delete\<close> is false for 0. It is false as well for a \<^verbatim>\<open>monthly_aport\<close> that is the empty
  string, \<^verbatim>\<open>false\<close> or \<^verbatim>\<open>null\<close>, which are sent likewise. For a draft whose \<^verbatim>\<open>monthly_aport\<close> is
  1234.5 the body has no \<^verbatim>\<open>monthly_aport\<close> and every other field of the draft, unchanged.
\<close>

theorem create_keeps_zero_aport:
  "field (Obj [(''name'', Str ''Casa''), (''monthly_aport'', Num (Fin 0))]) ''monthly_aport''
     = Num (Fin 0)
   \<and> handleCreateGoal_request ''tk''
         (Obj [(''name'', Str ''Casa''), (''monthly_aport'', Num (Fin 0))])
       = Inr \<lparr>req_method = POST, req_url = ''https://fortuna-api.onrender.com/api/goals'',
              req_content_type = ''application/json'', req_authorization = ''Bearer tk'',
              req_body = Obj [(''name'', Str ''Casa''), (''monthly_aport'', Num (Fin 0))]\<rparr>
   \<and> dataToSend (Obj [(''name'', Str ''Casa''), (''monthly_aport'', Str [])])
       = Inr [(''name'', Str ''Casa''), (''monthly_aport'', Str [])]
   \<and> dataToSend (Obj [(''name'', Str ''Casa''), (''monthly_aport'', Bool False)])
       = Inr [(''name'', Str ''Casa''), (''monthly_aport'', Bool False)]
   \<and> dataToSend (Obj [(''name'', Str ''Casa''), (''monthly_aport'', Null)])
       = Inr [(''name'', Str ''Casa''), (''monthly_aport'', Null)]
   \<and> handleCreateGoal_request ''tk'' sample_draft
       = Inr \<lparr>req_method = POST, req_url = ''https://fortuna-api.onrender.com/api/goals'',
              req_content_type = ''application/json'', req_authorization = ''Bearer tk'',
              req_body =
                Obj [(''name'', Str ''Casa''), (''type_goal'', Bool False),
                     (''patrimony'', Num (Fin (2469 / 2))), (''dividends'', Num (Fin (11 / 2))),
                     (''my_patrimony'', Num (Fin 100)), (''rate'', Num (Fin (1 / 8))),
                     (''time_desired'', Num (Fin 7))]\<rparr>"
  by (simp add: handleCreateGoal_request_def dataToSend_def then_exn_def nullish_def spread_def
        field_def to_boolean_def delete_property_def sample_draft_def)

section \<open>Properties of what the screens display\<close>

subsection \<open>Supporting facts\<close>

text \<open>
  A conversion to a string or to a number throws nothing but a TypeError, and throws
  only for an array or an object: values that are absent, \<^verbatim>\<open>null\<close>, booleans, numbers
  and strings are always converted.
\<close>

lemma collect_exn_throws: "collect_exn rs = Inl e \<Longrightarrow> Inl e \<in> set rs"
  by (induction rs) (auto simp: then_exn_def split: sum.splits)

lemma to_string_throws: "to_string v = Inl e \<Longrightarrow> e = TypeError"
proof (induction v rule: to_string.induct)
  case (6 xs)
  then have "collect_exn (map (\<lambda>x. if nullish x then Inr [] else to_string x) xs) = Inl e"
    by (simp add: then_exn_def split: sum.splits)
  then have "Inl e \<in> set (map (\<lambda>x. if nullish x then Inr [] else to_string x) xs)"
    by (rule collect_exn_throws)
  then obtain x where "x \<in> set xs" and "\<not> nullish x" and "to_string x = Inl e"
    by (auto split: if_splits)
  then show ?case
    using "6.IH" by blast
qed (simp_all split: if_splits)

lemma conversions_throw:
  "to_number v = Inl e \<Longrightarrow> e = TypeError"
  "isNaN v = Inl e \<Longrightarrow> e = TypeError"
  "parseFloat v = Inl e \<Longrightarrow> e = TypeError"
  "Number v = Inl e \<Longrightarrow> e = TypeError"
proof -
  have number: "to_number v = Inl e \<Longrightarrow> e = TypeError" for v e
    using to_string_throws [of v e]
    by (cases v) (simp_all add: to_number_def then_exn_def del: to_string.simps
          split: sum.splits)
  show "to_number v = Inl e \<Longrightarrow> e = TypeError"
    by (rule number)
  show "isNaN v = Inl e \<Longrightarrow> e = TypeError"
    using number [of v e] by (simp add: isNaN_def then_exn_def split: sum.splits)
  show "parseFloat v = Inl e \<Longrightarrow> e = TypeError"
    using to_string_throws [of v e]
    by (simp add: parseFloat_def then_exn_def del: to_string.simps split: sum.splits)
  show "Number v = Inl e \<Longrightarrow> e = TypeError"
    using number [of v e] by (simp add: Number_def)
qed

lemma conversions_of_scalars:
  assumes "\<forall>xs. v \<noteq> Arr xs" and "\<forall>ps. v \<noteq> Obj ps"
  shows "\<exists>s. to_string v = Inr s" and "\<exists>n. to_number v = Inr n"
    and "\<exists>b. isNaN v = Inr b" and "\<exists>n. parseFloat v = Inr n"
  using assms
  by (cases v; simp add: to_number_def isNaN_def parseFloat_def then_exn_def)+

text \<open>
  An object whose own properties include \<^verbatim>\<open>toString\<close>, as a parsed JSON document can hold
  one, is not converted; other objects print as \<^verbatim>\<open>[object Object]\<close>, arrays as their
  elements joined by commas. React refuses an object as a child and names its keys.
\<close>

lemma conversions_of_objects:
  "to_string (Obj [(''toString'', Null)]) = Inl TypeError"
  "to_number (Obj [(''toString'', Null)]) = Inl TypeError"
  "parseFloat (Obj [(''toString'', Str ''1'')]) = Inl TypeError"
  "to_string (Obj [(''valueOf'', Null)]) = Inr ''[object Object]''"
  "isNaN (Obj [(''a'', Null)]) = Inr True"
  "to_string (Arr [Num (Fin 1), Null, Str ''a'', Arr [Bool True, Undefined]])
     = Inr ''1,,a,true,''"
  "to_string (Arr [Num (Fin 1), Obj [(''toString'', Null)]]) = Inl TypeError"
  "patrimony_display (Obj [(''toString'', Null)]) = Inl TypeError"
  "render_child (Obj [(''a'', Null), (''b'', Null)])
     = Inl (Error (''Objects are not valid as a React child (found: object with keys {a, b}). ''
                   @ ''If you meant to render a collection of children, use an array instead.''))"
  by (simp_all add: patrimony_display_def invalid_child_def number_eval value_eval
        split del: if_split cong: let_weak_cong)

text \<open>
  When the expressions that call \<^verbatim>\<open>toFixed\<close> on the raw field throw: for a value that
  \<^verbatim>\<open>isNaN\<close> cannot convert, and for a value that is not a number although \<^verbatim>\<open>isNaN\<close> lets it
  pass.
\<close>

lemma dividends_review_throws_iff:
  "dividends_review v = Inl e
     \<longleftrightarrow> e = TypeError \<and> (isNaN v = Inl TypeError \<or> isNaN v = Inr False \<and> (\<forall>n. v \<noteq> Num n))"
  using conversions_throw(2) [of v]
  by (cases v; cases "isNaN v")
     (auto simp: dividends_review_def call_toFixed_def then_exn_def)

lemma monthly_aport_display_throws_iff:
  "monthly_aport_display v = Inl e
     \<longleftrightarrow> e = TypeError \<and> to_boolean v
         \<and> (isNaN v = Inl TypeError \<or> isNaN v = Inr False \<and> (\<forall>n. v \<noteq> Num n))"
  using conversions_throw(2) [of v]
  by (cases v; cases "isNaN v")
     (auto simp: monthly_aport_display_def call_toFixed_def then_exn_def)

text \<open>
  When the fallbacks are displayed: in the definition-review screen for a value that
  \<^verbatim>\<open>Number\<close> turns into NaN, in the detail screen for a falsy value and for one that
  \<^verbatim>\<open>parseFloat\<close> turns into NaN.
\<close>

lemma not_a_number_displays:
  "isNaN v = Inr True \<Longrightarrow> rate_review v = Inr ''N/A'' \<and> dividends_review v = Inr ''N/A''"
  "\<not> to_boolean v \<or> parseFloat v = Inr NaN \<Longrightarrow>
     rate_display v = Inr (Str ''N/A'') \<and> dividends_display v = Inr (Str ''N/A'')
     \<and> patrimony_display v = Inr ''R$0.00'' \<and> my_patrimony_display v = Inr ''R$0.00''"
  by (auto simp: rate_review_def dividends_review_def rate_display_def dividends_display_def
        patrimony_display_def my_patrimony_display_def then_exn_def is_nan_def)

text \<open>
  \<^verbatim>\<open>toFixed(2)\<close> of a finite number below \<open>10 ^ 21\<close> in magnitude: a sign when negative,
  one digit or more, the point, two digits.
\<close>

lemma digits_of_nonempty: "digits_of n \<noteq> []"
  by (subst digits_of.simps) simp

lemma is_digit_digit_char: "0 \<le> d \<Longrightarrow> d < 10 \<Longrightarrow> is_digit (digit_char d)"
proof -
  assume "0 \<le> d" "d < 10"
  then have "d \<in> {0, 1, 2, 3, 4, 5, 6, 7, 8, 9}" by (simp, arith)
  then show ?thesis by (auto simp: is_digit_def digit_char_def)
qed

lemma digits_of_digits: "0 \<le> n \<Longrightarrow> list_all is_digit (digits_of n)"
proof (induction n rule: digits_of.induct)
  case (1 n)
  show ?case
  proof (cases "n < 10")
    case True
    with 1 show ?thesis by (subst digits_of.simps) (simp add: is_digit_digit_char)
  next
    case False
    with 1 have "list_all is_digit (digits_of (n div 10))" by simp
    moreover have "is_digit (digit_char (n mod 10))" by (rule is_digit_digit_char) simp_all
    ultimately show ?thesis using False by (subst digits_of.simps) simp
  qed
qed

lemma toFixed_two_decimals:
  assumes "\<bar>x\<bar> < 10 ^ 21"
  shows "\<exists>w d1 d2. toFixed 2 (Fin x) = (if x < 0 then ''-'' else []) @ w @ ''.'' @ [d1, d2]
           \<and> w \<noteq> [] \<and> list_all is_digit w \<and> is_digit d1 \<and> is_digit d2"
proof -
  define m where "m = digits_of \<lfloor>\<bar>x\<bar> * 10 ^ 2 + 1 / 2\<rfloor>"
  define z where "z = replicate (2 + 1 - length m) CHR ''0'' @ m"
  have zero: "is_digit CHR ''0''" by (simp add: is_digit_def)
  have "0 \<le> \<lfloor>\<bar>x\<bar> * 10 ^ 2 + 1 / 2\<rfloor>" by simp
  then have dm: "list_all is_digit m" unfolding m_def by (rule digits_of_digits)
  have dz: "list_all is_digit z" using dm zero by (auto simp: z_def list_all_iff)
  have lz: "3 \<le> length z" by (simp add: z_def)
  have "length (drop (length z - 2) z) = 2" using lz by simp
  then obtain d1 d2 where d: "drop (length z - 2) z = [d1, d2]"
    by (metis (no_types, opaque_lifting) One_nat_def Suc_1 length_0_conv length_Suc_conv)
  have t: "take (length z - 2) z \<noteq> []" using lz by auto
  have "list_all is_digit (take (length z - 2) z @ drop (length z - 2) z)" using dz by simp
  then have dd: "list_all is_digit (take (length z - 2) z)" "is_digit d1" "is_digit d2"
    unfolding d by (simp_all)
  have "toFixed 2 (Fin x)
          = (if x < 0 then ''-'' else []) @ take (length z - 2) z @ ''.'' @ drop (length z - 2) z"
    using assms by (simp add: toFixed_def Let_def m_def z_def)
  then have "toFixed 2 (Fin x)
          = (if x < 0 then ''-'' else []) @ take (length z - 2) z @ ''.'' @ [d1, d2]"
    by (simp only: d)
  then show ?thesis using t dd by blast
qed

lemma patrimony_display_format:
  assumes "to_boolean v" and "parseFloat v = Inr (Fin x)" and "\<bar>x\<bar> < 10 ^ 21"
  shows "\<exists>w d1 d2. patrimony_display v
             = Inr (''R$'' @ (if x < 0 then ''-'' else []) @ w @ ''.'' @ [d1, d2])
           \<and> my_patrimony_display v = patrimony_display v
           \<and> w \<noteq> [] \<and> list_all is_digit w \<and> is_digit d1 \<and> is_digit d2"
  using toFixed_two_decimals [OF assms(3)] assms(1, 2)
  by (auto simp: patrimony_display_def my_patrimony_display_def is_nan_def then_exn_def)

subsection \<open>The claims\<close>

text \<open>
  C9. A goal whose \<^verbatim>\<open>time_desired\<close> is 7: the detail screen, when it shows the goal,
  displays \<^verbatim>\<open>Tempo Estimado: 7.0 anos\<close> (\<^verbatim>\<open>Number\<close>, then one decimal); the
  definition-review screen, when it shows the goal, displays \<^verbatim>\<open>7.00\<close> (\<^verbatim>\<open>parseFloat\<close>, then
  two decimals).
\<close>

theorem time_desired_seven:
  "field g ''time_desired'' = Num (Fin 7) \<Longrightarrow>
   timeRemaining (field g ''time_desired'') = Inr ''7.0''
   \<and> time_desired_review (field g ''time_desired'') = Inr ''7.00''
   \<and> (\<forall>s d. goalData s = g \<and> GoalDetailScreen s = Inr (DetailView d) \<longrightarrow>
          tempo_estimado d = ''Tempo Estimado: 7.0 anos'')
   \<and> (\<forall>r. GoalDefineScreen False g = Inr (ReviewView r) \<longrightarrow> tempo_desejado r = ''7.00'')"
  by (auto simp: GoalDetailScreen_def render_detail_def GoalDefineScreen_def then_exn_def
        timeRemaining_seven time_desired_review_seven
        split: sum.splits if_splits)

theorem time_desired_seven_witness:
  "field (sample_goal False) ''time_desired'' = Num (Fin 7)
   \<and> GoalDetailScreen (showing (sample_goal False)) = Inr (DetailView sample_detail)
   \<and> tempo_estimado sample_detail = ''Tempo Estimado: 7.0 anos''
   \<and> field sample_draft ''time_desired'' = Num (Fin 7)
   \<and> GoalDefineScreen False sample_draft = Inr (ReviewView sample_review)
   \<and> tempo_desejado sample_review = ''7.00''"
proof -
  have a: "field (sample_goal False) ''time_desired'' = Num (Fin 7)"
    by (simp add: sample_goal_def field_def)
  have b: "field sample_draft ''time_desired'' = Num (Fin 7)"
    by (simp add: sample_draft_def field_def)
  have c: "goalData (showing (sample_goal False)) = sample_goal False"
    by (simp add: showing_def)
  show ?thesis
    using a b c render_sample_goal render_sample_draft
      time_desired_seven [OF a] time_desired_seven [OF b]
    by blast
qed

text \<open>
  C1 at a goal whose \<^verbatim>\<open>monthly_aport\<close> is the number 1234.5. The two texts made from
  \<^verbatim>\<open>monthly_aport\<close>, the value of \<^verbatim>\<open>Aporte Mensal\<close> and the line that ends the highlight box,
  show \<^verbatim>\<open>1234.50\<close>: two decimals but no currency prefix, while the same expression's fallback is \<^verbatim>\<open>R$0.00\<close> and a
  \<^verbatim>\<open>patrimony\<close> of \<^verbatim>\<open>1234.5\<close> is displayed as \<^verbatim>\<open>R$1234.50\<close>.
\<close>

theorem monthly_aport_shown_without_prefix:
  "monthly_aport_display (Num (Fin (2469 / 2))) = Inr ''1234.50''
   \<and> monthly_aport_display (Num (Fin 0)) = Inr ''R$0.00''
   \<and> monthly_aport_display Undefined = Inr ''R$0.00''
   \<and> patrimony_display (Str ''1234.5'') = Inr ''R$1234.50''
   \<and> patrimony_display (Str ''abc'') = Inr ''R$0.00''
   \<and> patrimony_display Undefined = Inr ''R$0.00''
   \<and> field (sample_goal False) ''monthly_aport'' = Num (Fin (2469 / 2))
   \<and> GoalDetailScreen (showing (sample_goal False))
       = Inr (DetailView
           \<lparr>title = ''Casa'', patrimonio = ''R$1234.50'', meu_patrimonio = ''R$0.00'',
            aporte_mensal = ''1234.50'', dividendos = ''5.5'', rendimento = ''0.08'',
            status_label = ''Em Andamento'',
            aporte_necessario = ''Aporte Necess'' @ [CHR 0xE1] @ ''rio: 1234.50'',
            tempo_estimado = ''Tempo Estimado: 7.0 anos''\<rparr>)"
  by (simp add: showing_def sample_goal_def detail_eval number_eval value_eval
        split del: if_split cong: let_weak_cong)

text \<open>
  C2 at a goal whose \<^verbatim>\<open>dividends\<close> is the string \<^verbatim>\<open>5.5\<close>. In the definition-review screen
  \<^verbatim>\<open>isNaN\<close> converts the string to a number and answers false, and \<^verbatim>\<open>toFixed\<close> is then
  called on the string itself: a TypeError leaves the component. The detail screen does
  the same with a \<^verbatim>\<open>monthly_aport\<close> that is the string \<^verbatim>\<open>100\<close>.
\<close>

theorem string_where_number_expected_throws:
  "isNaN (Str ''5.5'') = Inr False
   \<and> dividends_review (Str ''5.5'') = Inl TypeError
   \<and> field (sample_goal False) ''dividends'' = Str ''5.5''
   \<and> GoalDefineScreen False (sample_goal False) = Inl TypeError
   \<and> monthly_aport_display (Str ''100'') = Inl TypeError
   \<and> GoalDetailScreen (showing (Obj [(''monthly_aport'', Str ''100'')])) = Inl TypeError"
  by (simp add: showing_def initial_def sample_goal_def detail_eval review_eval number_eval
        value_eval split del: if_split cong: let_weak_cong)

text \<open>
  C4 at a goal whose \<^verbatim>\<open>rate\<close> is the empty string, or \<^verbatim>\<open>null\<close>. In the definition-review
  screen \<^verbatim>\<open>isNaN\<close> converts either to the number 0 and answers false, and the rate is
  displayed as \<^verbatim>\<open>0.00%\<close>; the detail screen displays \<^verbatim>\<open>N/A\<close> for both. A \<^verbatim>\<open>dividends\<close>
  that is the empty string makes the definition-review screen throw.
\<close>

theorem blank_rate_shown_as_zero:
  "rate_review (Str []) = Inr ''0.00''
   \<and> rate_review Null = Inr ''0.00''
   \<and> GoalDefineScreen False (Obj [(''name'', Str ''Casa''), (''rate'', Str [])])
       = Inr (ReviewView
           \<lparr>nome = ''Casa'', tipo_de_meta = ''Patrim'' @ [CHR 0xF4] @ ''nio'',
            patrimonio_desejado = ''N/A'', dividendos_r = ''N/A'',
            meu_patrimonio_r = ''N/A'', taxa = ''0.00%'', tempo_desejado = ''N/A''\<rparr>)
   \<and> rate_display (Str []) = Inr (Str ''N/A'')
   \<and> rate_display Null = Inr (Str ''N/A'')
   \<and> dividends_review (Str []) = Inl TypeError"
  by (simp add: review_eval detail_eval number_eval value_eval
        split del: if_split cong: let_weak_cong)

end
